theory Spec2Isabelle
  imports Main
begin

section \<open>Python values, exceptions and annotations\<close>

text \<open>
  \<^verbatim>\<open>pyflink/ml/api.py\<close> declares five abstract classes and no algorithm. What the file
  does when it is imported and used is decided by Python's class machinery: the resolution
  of generic bases, the method resolution order, the abstract-method bookkeeping of
  \<^verbatim>\<open>ABCMeta\<close>, attribute lookup and calls. The development therefore has two layers:
  a small executable model of that machinery, and the class statements of the file
  written as data for it, with the six method bodies as functions.
\<close>

type_synonym name = string

text \<open>
  Tables and table environments belong to the execution engine and are opaque handles here.
  An object is the name of its class and an identity.
\<close>

datatype py_value =
    PyNone
  | PyStr string
  | PyTable nat
  | PyEnv nat
  | PyList "py_value list"
  | PyObject name nat
  | PyType name

text \<open>The built-in exception classes that occur, with their base classes.\<close>

datatype exc_type =
    BaseException
  | Exception
  | TypeError
  | AttributeError
  | NameError
  | NotImplementedError

fun exc_mro :: "exc_type \<Rightarrow> exc_type list" where
  "exc_mro BaseException = [BaseException]"
| "exc_mro Exception = [Exception, BaseException]"
| "exc_mro e = [e, Exception, BaseException]"

text \<open>
  An exception is its class and its message. For an exception that the module raises the
  message is the module's string. For one that the interpreter raises (a name that is not
  bound, an abstract class called, arguments that do not fit) the wording depends on the
  Python version and is abbreviated; nothing below depends on it.
\<close>

datatype py_exception = PyExc exc_type string

fun exc_type_of :: "py_exception \<Rightarrow> exc_type" where
  "exc_type_of (PyExc t msg) = t"

fun exc_message :: "py_exception \<Rightarrow> string" where
  "exc_message (PyExc t msg) = msg"

text \<open>\<^verbatim>\<open>except h:\<close> catches an exception whose class has \<open>h\<close> in its resolution order.\<close>

definition catches :: "exc_type \<Rightarrow> py_exception \<Rightarrow> bool" where
  "catches h e = (h \<in> set (exc_mro (exc_type_of e)))"

type_synonym result = "py_exception + py_value"

text \<open>
  Annotations as the file writes them: \<^verbatim>\<open>None\<close>, \<^verbatim>\<open>str\<close>, \<^verbatim>\<open>Table\<close>,
  \<^verbatim>\<open>StreamTableEnvironment\<close>, \<^verbatim>\<open>List[...]\<close>, a type variable, and a class with its type
  arguments (\<^verbatim>\<open>Model[M]\<close>; the forward reference \<^verbatim>\<open>'Model'\<close> has no arguments).
\<close>

datatype ty =
    TNone
  | TStr
  | TTable
  | TStreamTableEnvironment
  | TList ty
  | TVar name
  | TClass name "ty list"

section \<open>Class statements\<close>

text \<open>
  A function of a class body: whether it carries \<^verbatim>\<open>@abstractmethod\<close> and
  \<^verbatim>\<open>@classmethod\<close>, its parameters after \<^verbatim>\<open>self\<close> or \<^verbatim>\<open>cls\<close>, its \<^verbatim>\<open>*args\<close> parameter
  if it has one, its return annotation, and its body as a function of the receiver and
  the positional arguments.
\<close>

record method_decl =
  m_abstract :: bool
  m_classmethod :: bool
  m_params :: "(name \<times> ty) list"
  m_vararg :: "(name \<times> ty) option"
  m_returns :: ty
  m_body :: "py_value \<Rightarrow> py_value list \<Rightarrow> result"

text \<open>A base of a class statement is a plain name or a subscripted generic.\<close>

datatype base_expr = Plain name | Subscript name "ty list"

fun is_subscript :: "base_expr \<Rightarrow> bool" where
  "is_subscript (Plain c) = False"
| "is_subscript (Subscript c args) = True"

record class_decl =
  c_name :: name
  c_bases :: "base_expr list"
  c_methods :: "(name \<times> method_decl) list"

section \<open>Python's class machinery\<close>

text \<open>
  What a class statement leaves behind: the resolution order \<^verbatim>\<open>__mro__\<close>, the names in
  \<^verbatim>\<open>__abstractmethods__\<close>, and the namespace of the class body.
\<close>

record py_class =
  k_mro :: "name list"
  k_abstract :: "name list"
  k_dict :: "(name \<times> method_decl) list"

type_synonym class_table = "name \<rightharpoonup> py_class"

text \<open>
  \<^verbatim>\<open>__mro_entries__\<close> of the typing module: a subscripted class stands for the class, and
  \<^verbatim>\<open>Generic[...]\<close> stands for nothing when a later base is subscripted too.
\<close>

fun mro_entries :: "base_expr list \<Rightarrow> name list" where
  "mro_entries [] = []"
| "mro_entries (Plain c # bs) = c # mro_entries bs"
| "mro_entries (Subscript c args # bs) =
     (if c = ''Generic'' \<and> list_ex is_subscript bs then mro_entries bs
      else c # mro_entries bs)"

text \<open>
  The merge of the C3 linearisation: among the heads of the sequences that are left, take
  the first that is in no tail, append it to the result and remove it from the heads;
  there is no order when no head qualifies.
\<close>

function c3_merge :: "name list list \<Rightarrow> name list option" where
  "c3_merge seqs =
     (let ne = filter (\<lambda>s. s \<noteq> []) seqs in
      if ne = [] then Some []
      else case find (\<lambda>cand. list_all (\<lambda>s. cand \<notin> set (tl s)) ne) (map hd ne) of
             None \<Rightarrow> None
           | Some cand \<Rightarrow>
               map_option ((#) cand) (c3_merge (map (\<lambda>s. if hd s = cand then tl s else s) ne)))"
  by pat_completeness auto
termination
proof (relation "measure (\<lambda>seqs. sum_list (map length seqs))")
  show "wf (measure (\<lambda>seqs. sum_list (map length seqs)))"
    by simp
next
  fix seqs ne :: "name list list" and cand :: name
  assume ne: "ne = filter (\<lambda>s. s \<noteq> []) seqs"
    and found: "find (\<lambda>cand. list_all (\<lambda>s. cand \<notin> set (tl s)) ne) (map hd ne) = Some cand"
  have same: "sum_list (map length (filter (\<lambda>s. s \<noteq> []) xs)) = sum_list (map length xs)"
    for xs :: "name list list"
    by (induction xs) auto
  have less: "list_all (\<lambda>s. s \<noteq> []) xs \<Longrightarrow> cand \<in> hd ` set xs \<Longrightarrow>
      sum_list (map length (map (\<lambda>s. if hd s = cand then tl s else s) xs))
        < sum_list (map length xs)"
    for xs :: "name list list"
  proof (induction xs)
    case Nil
    then show ?case by simp
  next
    case (Cons x xs)
    have le: "sum_list (map length (map (\<lambda>s. if hd s = cand then tl s else s) ys))
        \<le> sum_list (map length ys)" for ys :: "name list list"
      by (induction ys) auto
    show ?case
    proof (cases "hd x = cand")
      case True
      with Cons.prems have "length (tl x) < length x" by simp
      with True le [of xs] show ?thesis by simp
    next
      case False
      with Cons.prems have "cand \<in> hd ` set xs" by auto
      with Cons.IH Cons.prems False show ?thesis by simp
    qed
  qed
  have all: "list_all (\<lambda>s. s \<noteq> []) ne"
    by (simp add: ne list_all_iff)
  from found have "cand \<in> set (map hd ne)"
    by (auto simp: find_Some_iff)
  then have "cand \<in> hd ` set ne" by simp
  from less [OF all this] same [of seqs] ne
  show "(map (\<lambda>s. if hd s = cand then tl s else s) ne, seqs)
      \<in> measure (\<lambda>seqs. sum_list (map length seqs))"
    by simp
qed

declare c3_merge.simps [simp del]

text \<open>
  The classes that exist before any module of the repository runs. Their own attributes
  (the dunder methods of \<^verbatim>\<open>object\<close>) are the same for every class and are left out.
\<close>

definition builtins :: class_table where
  "builtins =
     [''object'' \<mapsto> \<lparr>k_mro = [''object''], k_abstract = [], k_dict = []\<rparr>,
      ''ABC'' \<mapsto> \<lparr>k_mro = [''ABC'', ''object''], k_abstract = [], k_dict = []\<rparr>,
      ''Generic'' \<mapsto> \<lparr>k_mro = [''Generic'', ''object''], k_abstract = [], k_dict = []\<rparr>]"

text \<open>Attribute lookup on a class: the first class of the resolution order that has the name.\<close>

fun lookup_mro :: "class_table \<Rightarrow> name list \<Rightarrow> name \<Rightarrow> (name \<times> method_decl) option" where
  "lookup_mro tbl [] n = None"
| "lookup_mro tbl (c # cs) n =
     (case tbl c of
        None \<Rightarrow> lookup_mro tbl cs n
      | Some k \<Rightarrow>
          (case map_of (k_dict k) n of
             None \<Rightarrow> lookup_mro tbl cs n
           | Some m \<Rightarrow> Some (c, m)))"

definition resolve :: "class_table \<Rightarrow> name \<Rightarrow> name \<Rightarrow> (name \<times> method_decl) option" where
  "resolve tbl c n = (case tbl c of None \<Rightarrow> None | Some k \<Rightarrow> lookup_mro tbl (k_mro k) n)"

definition is_abstract_attr :: "class_table \<Rightarrow> name \<Rightarrow> name \<Rightarrow> bool" where
  "is_abstract_attr tbl c n = (case resolve tbl c n of None \<Rightarrow> False | Some (owner, m) \<Rightarrow> m_abstract m)"

text \<open>
  Executing a class statement. The bases are resolved (\<^verbatim>\<open>object\<close> when there is none) and
  must be bound; the resolution order is the class followed by the merge of the bases'
  orders and the list of bases; a later function of the body replaces an earlier one of
  the same name. For a class below \<^verbatim>\<open>ABC\<close>, \<^verbatim>\<open>ABCMeta.__new__\<close> then collects the
  abstract names: those of the body whose value is abstract, and those of each base's
  \<^verbatim>\<open>__abstractmethods__\<close> that are still abstract when looked up on the new class.
  Python keeps them in a frozenset; only its members matter here.
\<close>

definition define_class :: "class_table \<Rightarrow> class_decl \<Rightarrow> py_exception + class_table" where
  "define_class tbl d =
     (let entries = mro_entries (c_bases d);
          bases = (if entries = [] then [''object''] else entries)
      in case those (map tbl bases) of
           None \<Rightarrow> Inl (PyExc NameError ''name is not defined'')
         | Some ks \<Rightarrow>
             (case c3_merge (map k_mro ks @ [bases]) of
                None \<Rightarrow>
                  Inl (PyExc TypeError ''Cannot create a consistent method resolution order (MRO)'')
              | Some rest \<Rightarrow>
                  let k = \<lparr>k_mro = c_name d # rest, k_abstract = [], k_dict = rev (c_methods d)\<rparr>;
                      tbl' = tbl(c_name d \<mapsto> k);
                      abstracts =
                        filter (is_abstract_attr tbl' (c_name d))
                          (map fst (c_methods d) @ concat (map k_abstract ks))
                  in Inr (tbl(c_name d \<mapsto>
                       k\<lparr>k_abstract := (if ''ABC'' \<in> set rest then abstracts else [])\<rparr>))))"

text \<open>A module is a sequence of class statements; the first that fails ends it.\<close>

fun exec_module :: "class_table \<Rightarrow> class_decl list \<Rightarrow> py_exception + class_table" where
  "exec_module tbl [] = Inr tbl"
| "exec_module tbl (d # ds) =
     (case define_class tbl d of
        Inl e \<Rightarrow> Inl e
      | Inr tbl' \<Rightarrow> exec_module tbl' ds)"

text \<open>
  The class table after a class statement; a statement that raises leaves the table as it
  was.
\<close>

definition after_class :: "class_table \<Rightarrow> class_decl \<Rightarrow> class_table" where
  "after_class tbl d = (case define_class tbl d of Inl e \<Rightarrow> tbl | Inr tbl' \<Rightarrow> tbl')"

text \<open>
  Calling a class with no arguments. \<^verbatim>\<open>object.__new__\<close> refuses a class whose
  \<^verbatim>\<open>__abstractmethods__\<close> is not empty. The new object gets the identity \<open>i\<close>.
\<close>

definition instantiate :: "class_table \<Rightarrow> name \<Rightarrow> nat \<Rightarrow> result" where
  "instantiate tbl c i =
     (case tbl c of
        None \<Rightarrow> Inl (PyExc NameError ''name is not defined'')
      | Some k \<Rightarrow>
          if k_abstract k = [] then Inr (PyObject c i)
          else Inl (PyExc TypeError ''Cannot instantiate abstract class''))"

text \<open>\<^verbatim>\<open>c.__abstractmethods__\<close>.\<close>

definition abstractmethods :: "class_table \<Rightarrow> name \<Rightarrow> name list" where
  "abstractmethods tbl c = (case tbl c of None \<Rightarrow> [] | Some k \<Rightarrow> k_abstract k)"

definition issubclass :: "class_table \<Rightarrow> name \<Rightarrow> name \<Rightarrow> bool" where
  "issubclass tbl c b = (case tbl c of None \<Rightarrow> False | Some k \<Rightarrow> b \<in> set (k_mro k))"

fun isinstance :: "class_table \<Rightarrow> py_value \<Rightarrow> name \<Rightarrow> bool" where
  "isinstance tbl (PyObject c i) b = issubclass tbl c b"
| "isinstance tbl v b = False"

text \<open>
  Binding positional arguments: without \<^verbatim>\<open>*args\<close> the count must be the number of
  parameters, with it at least that number.
\<close>

definition bind_ok :: "method_decl \<Rightarrow> py_value list \<Rightarrow> bool" where
  "bind_ok m args =
     (case m_vararg m of
        None \<Rightarrow> length args = length (m_params m)
      | Some v \<Rightarrow> length (m_params m) \<le> length args)"

text \<open>
  \<^verbatim>\<open>recv.n(*args)\<close>. On an object, a class method receives the object's class and any
  other function the object. On a class, a class method receives the class, and any other
  function is called unbound, its first argument standing for \<^verbatim>\<open>self\<close>.
\<close>

definition call_method :: "class_table \<Rightarrow> py_value \<Rightarrow> name \<Rightarrow> py_value list \<Rightarrow> result" where
  "call_method tbl recv n args =
     (case recv of
        PyObject c i \<Rightarrow>
          (case resolve tbl c n of
             None \<Rightarrow> Inl (PyExc AttributeError n)
           | Some (owner, m) \<Rightarrow>
               if bind_ok m args
               then m_body m (if m_classmethod m then PyType c else recv) args
               else Inl (PyExc TypeError n))
      | PyType c \<Rightarrow>
          (case resolve tbl c n of
             None \<Rightarrow> Inl (PyExc AttributeError n)
           | Some (owner, m) \<Rightarrow>
               if m_classmethod m
               then (if bind_ok m args then m_body m recv args else Inl (PyExc TypeError n))
               else (case args of
                       [] \<Rightarrow> Inl (PyExc TypeError n)
                     | self # rest \<Rightarrow>
                         if bind_ok m rest then m_body m self rest else Inl (PyExc TypeError n)))
      | _ \<Rightarrow> Inl (PyExc AttributeError n))"

text \<open>
  What an annotation admits. Python checks none of this at run time; the predicate gives
  the annotations of the file their meaning. A type variable admits the instances of the
  class it is bound to (anything when it is unbound); the arguments of a generic class do
  not restrict its instances.
\<close>

fun conforms :: "class_table \<Rightarrow> (name \<rightharpoonup> name) \<Rightarrow> ty \<Rightarrow> py_value \<Rightarrow> bool" where
  "conforms tbl env TNone v = (v = PyNone)"
| "conforms tbl env TStr v = (case v of PyStr s \<Rightarrow> True | _ \<Rightarrow> False)"
| "conforms tbl env TTable v = (case v of PyTable t \<Rightarrow> True | _ \<Rightarrow> False)"
| "conforms tbl env TStreamTableEnvironment v = (case v of PyEnv e \<Rightarrow> True | _ \<Rightarrow> False)"
| "conforms tbl env (TList t) v =
     (case v of PyList vs \<Rightarrow> list_all (conforms tbl env t) vs | _ \<Rightarrow> False)"
| "conforms tbl env (TVar a) v =
     (case env a of None \<Rightarrow> True | Some c \<Rightarrow> isinstance tbl v c)"
| "conforms tbl env (TClass c args) v = isinstance tbl v c"

section \<open>The module \<^verbatim>\<open>pyflink/ml/api.py\<close>\<close>

subsection \<open>Function bodies\<close>

text \<open>A body that is only \<^verbatim>\<open>pass\<close> (after its docstring) returns \<^verbatim>\<open>None\<close>.\<close>

definition Stage_save :: "py_value \<Rightarrow> py_value list \<Rightarrow> result" where
  "Stage_save self args = Inr PyNone"

definition Stage_load :: "py_value \<Rightarrow> py_value list \<Rightarrow> result" where
  "Stage_load cls args = Inr PyNone"

definition AlgoOperator_transform :: "py_value \<Rightarrow> py_value list \<Rightarrow> result" where
  "AlgoOperator_transform self inputs = Inr PyNone"

definition Model_set_model_data :: "py_value \<Rightarrow> py_value list \<Rightarrow> result" where
  "Model_set_model_data self inputs = Inl (PyExc Exception ''This operation is not supported.'')"

definition Model_get_model_data :: "py_value \<Rightarrow> py_value list \<Rightarrow> result" where
  "Model_get_model_data self args = Inl (PyExc Exception ''This operation is not supported.'')"

definition Estimator_fit :: "py_value \<Rightarrow> py_value list \<Rightarrow> result" where
  "Estimator_fit self inputs = Inr PyNone"

subsection \<open>Class statements\<close>

definition save_decl :: method_decl where
  "save_decl =
     \<lparr>m_abstract = True, m_classmethod = False,
      m_params = [(''path'', TStr)], m_vararg = None,
      m_returns = TNone, m_body = Stage_save\<rparr>"

definition load_decl :: method_decl where
  "load_decl =
     \<lparr>m_abstract = True, m_classmethod = True,
      m_params = [(''t_env'', TStreamTableEnvironment), (''path'', TStr)], m_vararg = None,
      m_returns = TVar ''T'', m_body = Stage_load\<rparr>"

definition transform_decl :: method_decl where
  "transform_decl =
     \<lparr>m_abstract = True, m_classmethod = False,
      m_params = [], m_vararg = Some (''inputs'', TTable),
      m_returns = TList TTable, m_body = AlgoOperator_transform\<rparr>"

definition set_model_data_decl :: method_decl where
  "set_model_data_decl =
     \<lparr>m_abstract = False, m_classmethod = False,
      m_params = [], m_vararg = Some (''inputs'', TTable),
      m_returns = TClass ''Model'' [], m_body = Model_set_model_data\<rparr>"

definition get_model_data_decl :: method_decl where
  "get_model_data_decl =
     \<lparr>m_abstract = False, m_classmethod = False,
      m_params = [], m_vararg = None,
      m_returns = TList TTable, m_body = Model_get_model_data\<rparr>"

definition fit_decl :: method_decl where
  "fit_decl =
     \<lparr>m_abstract = False, m_classmethod = False,
      m_params = [], m_vararg = Some (''inputs'', TTable),
      m_returns = TClass ''Model'' [TVar ''M''], m_body = Estimator_fit\<rparr>"

definition Stage :: class_decl where
  "Stage =
     \<lparr>c_name = ''Stage'',
      c_bases = [Subscript ''WithParams'' [TVar ''T''], Plain ''ABC''],
      c_methods = [(''save'', save_decl), (''load'', load_decl)]\<rparr>"

definition AlgoOperator :: class_decl where
  "AlgoOperator =
     \<lparr>c_name = ''AlgoOperator'',
      c_bases = [Subscript ''Stage'' [TVar ''T''], Plain ''ABC''],
      c_methods = [(''transform'', transform_decl)]\<rparr>"

definition Transformer :: class_decl where
  "Transformer =
     \<lparr>c_name = ''Transformer'',
      c_bases = [Subscript ''AlgoOperator'' [TVar ''T''], Plain ''ABC''],
      c_methods = []\<rparr>"

definition Model :: class_decl where
  "Model =
     \<lparr>c_name = ''Model'',
      c_bases = [Subscript ''Transformer'' [TVar ''T''], Plain ''ABC''],
      c_methods = [(''set_model_data'', set_model_data_decl),
                   (''get_model_data'', get_model_data_decl)]\<rparr>"

definition Estimator :: class_decl where
  "Estimator =
     \<lparr>c_name = ''Estimator'',
      c_bases = [Subscript ''Generic'' [TVar ''E'', TVar ''M''],
                 Subscript ''Stage'' [TVar ''E''], Plain ''ABC''],
      c_methods = [(''fit'', fit_decl)]\<rparr>"

definition api_py :: "class_decl list" where
  "api_py = [Stage, AlgoOperator, Transformer, Model, Estimator]"

text \<open>
  \<^verbatim>\<open>WithParams\<close> is imported from \<^verbatim>\<open>pyflink.ml.param\<close>, which is not part of the
  sources at hand. The file subscripts it (\<^verbatim>\<open>WithParams[T]\<close>), so it is a generic class;
  the functions it gives to its subclasses, and which of them are abstract, are the
  parameter \<open>wp\<close>. It is taken to be an abstract base class itself, so that every function
  marked abstract in \<open>wp\<close> counts; a \<^verbatim>\<open>WithParams\<close> that is not one is the case of a \<open>wp\<close>
  without abstract functions.
\<close>

definition WithParams :: "(name \<times> method_decl) list \<Rightarrow> class_decl" where
  "WithParams wp =
     \<lparr>c_name = ''WithParams'',
      c_bases = [Subscript ''Generic'' [TVar ''T''], Plain ''ABC''],
      c_methods = wp\<rparr>"

text \<open>The class table after \<^verbatim>\<open>import pyflink.ml.api\<close>.\<close>

definition api_table :: "(name \<times> method_decl) list \<Rightarrow> py_exception + class_table" where
  "api_table wp = exec_module builtins (WithParams wp # api_py)"

subsection \<open>The class table in closed form\<close>

text \<open>
  The six classes as the import leaves them, written out. \<open>api_table_eq\<close> below proves that
  executing the class statements produces exactly this table, for every \<open>wp\<close>. The names
  that \<^verbatim>\<open>WithParams\<close> leaves abstract are inherited by every class that does not define
  them itself.
\<close>

definition abstract_names :: "(name \<times> method_decl) list \<Rightarrow> name list" where
  "abstract_names ms =
     filter (\<lambda>n. case map_of (rev ms) n of None \<Rightarrow> False | Some m \<Rightarrow> m_abstract m) (map fst ms)"

definition WithParams_class :: "(name \<times> method_decl) list \<Rightarrow> py_class" where
  "WithParams_class wp =
     \<lparr>k_mro = [''WithParams'', ''Generic'', ''ABC'', ''object''],
      k_abstract = abstract_names wp,
      k_dict = rev wp\<rparr>"

definition Stage_class :: "(name \<times> method_decl) list \<Rightarrow> py_class" where
  "Stage_class wp =
     \<lparr>k_mro = [''Stage'', ''WithParams'', ''Generic'', ''ABC'', ''object''],
      k_abstract = ''save'' # ''load'' # abstract_names wp,
      k_dict = [(''load'', load_decl), (''save'', save_decl)]\<rparr>"

definition AlgoOperator_class :: "(name \<times> method_decl) list \<Rightarrow> py_class" where
  "AlgoOperator_class wp =
     \<lparr>k_mro = [''AlgoOperator'', ''Stage'', ''WithParams'', ''Generic'', ''ABC'', ''object''],
      k_abstract = ''transform'' # ''save'' # ''load'' # abstract_names wp,
      k_dict = [(''transform'', transform_decl)]\<rparr>"

definition Transformer_class :: "(name \<times> method_decl) list \<Rightarrow> py_class" where
  "Transformer_class wp =
     \<lparr>k_mro = [''Transformer'', ''AlgoOperator'', ''Stage'', ''WithParams'', ''Generic'', ''ABC'',
               ''object''],
      k_abstract = ''transform'' # ''save'' # ''load'' # abstract_names wp,
      k_dict = []\<rparr>"

definition Model_class :: "(name \<times> method_decl) list \<Rightarrow> py_class" where
  "Model_class wp =
     \<lparr>k_mro = [''Model'', ''Transformer'', ''AlgoOperator'', ''Stage'', ''WithParams'', ''Generic'',
               ''ABC'', ''object''],
      k_abstract = ''transform'' # ''save'' # ''load'' #
        filter (\<lambda>n. n \<noteq> ''set_model_data'' \<and> n \<noteq> ''get_model_data'') (abstract_names wp),
      k_dict = [(''get_model_data'', get_model_data_decl),
                (''set_model_data'', set_model_data_decl)]\<rparr>"

definition Estimator_class :: "(name \<times> method_decl) list \<Rightarrow> py_class" where
  "Estimator_class wp =
     \<lparr>k_mro = [''Estimator'', ''Stage'', ''WithParams'', ''Generic'', ''ABC'', ''object''],
      k_abstract = ''save'' # ''load'' # filter (\<lambda>n. n \<noteq> ''fit'') (abstract_names wp),
      k_dict = [(''fit'', fit_decl)]\<rparr>"

definition api_classes :: "(name \<times> method_decl) list \<Rightarrow> class_table" where
  "api_classes wp =
     builtins
      (''WithParams'' \<mapsto> WithParams_class wp,
       ''Stage'' \<mapsto> Stage_class wp,
       ''AlgoOperator'' \<mapsto> AlgoOperator_class wp,
       ''Transformer'' \<mapsto> Transformer_class wp,
       ''Model'' \<mapsto> Model_class wp,
       ''Estimator'' \<mapsto> Estimator_class wp)"

subsection \<open>Client classes\<close>

text \<open>
  The module has no concrete class; its classes are used by subclassing them. These are
  subclasses a client can write: \<^verbatim>\<open>save\<close> does nothing, \<^verbatim>\<open>load\<close> returns \<^verbatim>\<open>cls()\<close>, and
  \<^verbatim>\<open>transform\<close> ignores its inputs and returns \<open>m\<close> tables. The parameter \<open>impl\<close> is the
  functions with which the subclass implements what \<^verbatim>\<open>WithParams\<close> leaves abstract.
\<close>

definition client_save :: method_decl where
  "client_save =
     \<lparr>m_abstract = False, m_classmethod = False,
      m_params = [(''path'', TStr)], m_vararg = None,
      m_returns = TNone, m_body = (\<lambda>self args. Inr PyNone)\<rparr>"

definition client_load :: method_decl where
  "client_load =
     \<lparr>m_abstract = False, m_classmethod = True,
      m_params = [(''t_env'', TStreamTableEnvironment), (''path'', TStr)], m_vararg = None,
      m_returns = TVar ''T'',
      m_body = (\<lambda>cls args. case cls of PyType c \<Rightarrow> Inr (PyObject c 0)
                               | _ \<Rightarrow> Inl (PyExc TypeError ''load''))\<rparr>"

definition client_transform :: "nat \<Rightarrow> method_decl" where
  "client_transform m =
     \<lparr>m_abstract = False, m_classmethod = False,
      m_params = [], m_vararg = Some (''inputs'', TTable),
      m_returns = TList TTable,
      m_body = (\<lambda>self inputs. Inr (PyList (map PyTable [0..<m])))\<rparr>"


definition ClientModel :: "(name \<times> method_decl) list \<Rightarrow> class_decl" where
  "ClientModel impl =
     \<lparr>c_name = ''ClientModel'',
      c_bases = [Subscript ''Model'' [TClass ''ClientModel'' []]],
      c_methods = impl @ [(''transform'', client_transform 1), (''save'', client_save),
                          (''load'', client_load)]\<rparr>"

definition ClientEstimator :: "(name \<times> method_decl) list \<Rightarrow> class_decl" where
  "ClientEstimator impl =
     \<lparr>c_name = ''ClientEstimator'',
      c_bases = [Subscript ''Estimator'' [TClass ''ClientEstimator'' [], TClass ''ClientModel'' []]],
      c_methods = impl @ [(''save'', client_save), (''load'', client_load)]\<rparr>"

text \<open>
  \<^verbatim>\<open>class FixedEstimator(Estimator['FixedEstimator', ClientModel])\<close>, whose \<^verbatim>\<open>fit\<close>
  ignores its inputs and returns the value \<open>M\<close>.
\<close>

definition client_fit :: "py_value \<Rightarrow> method_decl" where
  "client_fit M =
     \<lparr>m_abstract = False, m_classmethod = False,
      m_params = [], m_vararg = Some (''inputs'', TTable),
      m_returns = TClass ''Model'' [TVar ''M''],
      m_body = (\<lambda>self inputs. Inr M)\<rparr>"

definition FixedEstimator :: "(name \<times> method_decl) list \<Rightarrow> py_value \<Rightarrow> class_decl" where
  "FixedEstimator impl M =
     \<lparr>c_name = ''FixedEstimator'',
      c_bases = [Subscript ''Estimator'' [TClass ''FixedEstimator'' [], TClass ''ClientModel'' []]],
      c_methods = impl @ [(''fit'', client_fit M), (''save'', client_save),
                          (''load'', client_load)]\<rparr>"

text \<open>
  \<open>impl\<close> implements what \<^verbatim>\<open>WithParams\<close> leaves abstract: it has no abstract function, and
  a function for each abstract name of \<open>wp\<close>.
\<close>

definition implements :: "(name \<times> method_decl) list \<Rightarrow> (name \<times> method_decl) list \<Rightarrow> bool" where
  "implements impl wp =
     (list_all (\<lambda>(n, m). \<not> m_abstract m) impl
      \<and> list_all (\<lambda>n. n \<in> fst ` set impl) (abstract_names wp))"



text \<open>
  One value of the parameter that stands for \<^verbatim>\<open>WithParams\<close>: a class that declares a single
  function, \<^verbatim>\<open>get_param_map(self)\<close>, and leaves it abstract; and the function with which a
  subclass implements it.
\<close>

definition wp_get_param_map :: "(name \<times> method_decl) list" where
  "wp_get_param_map =
     [(''get_param_map'',
       \<lparr>m_abstract = True, m_classmethod = False, m_params = [], m_vararg = None,
        m_returns = TClass ''Dict'' [], m_body = (\<lambda>self args. Inr PyNone)\<rparr>)]"

definition impl_get_param_map :: "(name \<times> method_decl) list" where
  "impl_get_param_map =
     [(''get_param_map'',
       \<lparr>m_abstract = False, m_classmethod = False, m_params = [], m_vararg = None,
        m_returns = TClass ''Dict'' [], m_body = (\<lambda>self args. Inr (PyList []))\<rparr>)]"

section \<open>Persistence of concrete stages\<close>

text \<open>
  The module only declares \<^verbatim>\<open>save\<close> and \<^verbatim>\<open>load\<close>, with the docstrings "Saves this stage to
  the given path." and "Instantiates a new stage instance based on the data read from the
  given path."; the concrete stages that implement them, the parameters that make up a
  stage's configuration and the storage are not in the sources. A stage is the name of its
  class, an identity and its configuration. A path of the storage holds the data of a
  stage, something else, or nothing, and can be written or not.
\<close>

type_synonym config = "(name \<times> py_value) list"

record stage =
  of_class :: name
  ident :: nat
  config :: config

datatype content = StageData config | OtherData string

record storage =
  files :: "string \<rightharpoonup> content"
  writable :: "string \<Rightarrow> bool"

datatype persist_error = IOError | NotFoundError | DeserializationError

text \<open>
  Modelled from the spec: the no-argument constructor that every stage must provide. The
  new stage has the default configuration of its class.
\<close>

definition spec_construct :: "(name \<Rightarrow> config) \<Rightarrow> name \<Rightarrow> nat \<Rightarrow> stage" where
  "spec_construct defaults cls i = \<lparr>of_class = cls, ident = i, config = defaults cls\<rparr>"

text \<open>
  Modelled from the spec: \<^verbatim>\<open>save(path)\<close> of a concrete stage. It "persists the stage's
  configuration/state to the given location", "fails with an I/O or serialization error
  if the path is invalid or unwritable", and has no return value.
\<close>

definition spec_save :: "stage \<Rightarrow> string \<Rightarrow> storage \<Rightarrow> persist_error + storage" where
  "spec_save self path st =
     (if writable st path
      then Inr (st\<lparr>files := (files st)(path \<mapsto> StageData (config self))\<rparr>)
      else Inl IOError)"

text \<open>
  Modelled from the spec: \<^verbatim>\<open>load(environment, path)\<close> of a concrete stage, a "class-level
  factory" that "reconstructs a stage instance", "fails with a deserialization or
  not-found error if the path contains no valid stage data" and "returns a new instance
  of the calling type". The new instance gets the identity \<open>i\<close>.
\<close>

definition spec_load :: "name \<Rightarrow> nat \<Rightarrow> string \<Rightarrow> storage \<Rightarrow> nat \<Rightarrow> persist_error + stage" where
  "spec_load cls t_env path st i =
     (case files st path of
        None \<Rightarrow> Inl NotFoundError
      | Some (OtherData d) \<Rightarrow> Inl DeserializationError
      | Some (StageData cfg) \<Rightarrow> Inr \<lparr>of_class = cls, ident = i, config = cfg\<rparr>)"

section \<open>Executing the module\<close>

lemma define_class_step:
  assumes "c_name d = c" and "mro_entries (c_bases d) = bases" and "bases \<noteq> []"
    and "those (map tbl bases) = Some ks"
    and "c3_merge (map k_mro ks @ [bases]) = Some rest"
    and "''ABC'' \<in> set rest"
    and "rev (c_methods d) = dict"
    and "map fst (c_methods d) @ concat (map k_abstract ks) = cands"
    and "filter (is_abstract_attr
           (tbl(c \<mapsto> \<lparr>k_mro = c # rest, k_abstract = [], k_dict = dict\<rparr>)) c) cands = absn"
  shows "define_class tbl d =
    Inr (tbl(c \<mapsto> \<lparr>k_mro = c # rest, k_abstract = absn, k_dict = dict\<rparr>))"
  using assms by (simp add: define_class_def Let_def)

lemma abstract_names_lookup:
  "n \<in> set (abstract_names ms) \<Longrightarrow> \<exists>m. map_of (rev ms) n = Some m \<and> m_abstract m"
  by (auto simp: abstract_names_def split: option.splits)

lemmas decl_defs = save_decl_def load_decl_def transform_decl_def set_model_data_decl_def
  get_model_data_decl_def fit_decl_def

lemmas class_defs = WithParams_class_def Stage_class_def AlgoOperator_class_def
  Transformer_class_def Model_class_def Estimator_class_def

lemma builtins_simps:
  "builtins ''object'' = Some \<lparr>k_mro = [''object''], k_abstract = [], k_dict = []\<rparr>"
  "builtins ''ABC'' = Some \<lparr>k_mro = [''ABC'', ''object''], k_abstract = [], k_dict = []\<rparr>"
  "builtins ''Generic'' = Some \<lparr>k_mro = [''Generic'', ''object''], k_abstract = [], k_dict = []\<rparr>"
  by (simp_all add: builtins_def)

lemma step_WithParams:
  "define_class builtins (WithParams wp) = Inr (builtins(''WithParams'' \<mapsto> WithParams_class wp))"
  unfolding WithParams_class_def
proof (rule define_class_step [where bases = "[''Generic'', ''ABC'']"
      and cands = "map fst wp"
      and ks = "[\<lparr>k_mro = [''Generic'', ''object''], k_abstract = [], k_dict = []\<rparr>,
                 \<lparr>k_mro = [''ABC'', ''object''], k_abstract = [], k_dict = []\<rparr>]"])
  show "c3_merge (map k_mro [\<lparr>k_mro = [''Generic'', ''object''], k_abstract = [], k_dict = []\<rparr>,
                 \<lparr>k_mro = [''ABC'', ''object''], k_abstract = [], k_dict = []\<rparr>] @ [[''Generic'', ''ABC'']])
      = Some [''Generic'', ''ABC'', ''object'']"
    by (simp add: c3_merge.simps)
  show "filter (is_abstract_attr (builtins(''WithParams'' \<mapsto>
        \<lparr>k_mro = [''WithParams'', ''Generic'', ''ABC'', ''object''], k_abstract = [], k_dict = rev wp\<rparr>))
      ''WithParams'') (map fst wp) = abstract_names wp"
    unfolding abstract_names_def
    by (rule filter_cong)
      (simp_all add: is_abstract_attr_def resolve_def builtins_simps split: option.splits)
qed (simp_all add: WithParams_def builtins_simps)

lemma step_Stage:
  "define_class (builtins(''WithParams'' \<mapsto> WithParams_class wp)) Stage
     = Inr (builtins(''WithParams'' \<mapsto> WithParams_class wp, ''Stage'' \<mapsto> Stage_class wp))"
  unfolding Stage_class_def
proof (rule define_class_step [where bases = "[''WithParams'', ''ABC'']"
      and cands = "''save'' # ''load'' # abstract_names wp"
      and ks = "[WithParams_class wp,
                 \<lparr>k_mro = [''ABC'', ''object''], k_abstract = [], k_dict = []\<rparr>]"])
  let ?t = "builtins(''WithParams'' \<mapsto> WithParams_class wp)"
  show "c3_merge (map k_mro [WithParams_class wp,
                 \<lparr>k_mro = [''ABC'', ''object''], k_abstract = [], k_dict = []\<rparr>] @ [[''WithParams'', ''ABC'']])
       = Some [''WithParams'', ''Generic'', ''ABC'', ''object'']"
    by (simp add: c3_merge.simps WithParams_class_def)
  have a: "is_abstract_attr (?t(''Stage'' \<mapsto>
        \<lparr>k_mro = [''Stage'', ''WithParams'', ''Generic'', ''ABC'', ''object''], k_abstract = [],
         k_dict = [(''load'', load_decl), (''save'', save_decl)]\<rparr>)) ''Stage'' n"
    if "n \<in> set (''save'' # ''load'' # abstract_names wp)" for n
  proof (cases "n = ''save'' \<or> n = ''load''")
    case True
    then show ?thesis
      by (auto simp: is_abstract_attr_def resolve_def decl_defs)
  next
    case False
    with that obtain m where "map_of (rev wp) n = Some m" "m_abstract m"
      using abstract_names_lookup by auto
    with False show ?thesis
      by (simp add: is_abstract_attr_def resolve_def WithParams_class_def)
  qed
  show "filter (is_abstract_attr (?t(''Stage'' \<mapsto>
        \<lparr>k_mro = [''Stage'', ''WithParams'', ''Generic'', ''ABC'', ''object''], k_abstract = [],
         k_dict = [(''load'', load_decl), (''save'', save_decl)]\<rparr>)) ''Stage'')
      (''save'' # ''load'' # abstract_names wp) = ''save'' # ''load'' # abstract_names wp"
    by (rule filter_True) (use a in blast)
qed (simp_all add: Stage_def builtins_simps WithParams_class_def)


lemma step_AlgoOperator:
  "define_class (builtins(''WithParams'' \<mapsto> WithParams_class wp, ''Stage'' \<mapsto> Stage_class wp))
       AlgoOperator
     = Inr (builtins(''WithParams'' \<mapsto> WithParams_class wp, ''Stage'' \<mapsto> Stage_class wp,
         ''AlgoOperator'' \<mapsto> AlgoOperator_class wp))"
  unfolding AlgoOperator_class_def
proof (rule define_class_step [where bases = "[''Stage'', ''ABC'']"
      and cands = "''transform'' # ''save'' # ''load'' # abstract_names wp"
      and ks = "[Stage_class wp,
                 \<lparr>k_mro = [''ABC'', ''object''], k_abstract = [], k_dict = []\<rparr>]"])
  let ?t = "builtins(''WithParams'' \<mapsto> WithParams_class wp, ''Stage'' \<mapsto> Stage_class wp)"
  let ?k = "\<lparr>k_mro = [''AlgoOperator'', ''Stage'', ''WithParams'', ''Generic'', ''ABC'', ''object''],
      k_abstract = [], k_dict = [(''transform'', transform_decl)]\<rparr>"
  show "c3_merge (map k_mro [Stage_class wp,
                 \<lparr>k_mro = [''ABC'', ''object''], k_abstract = [], k_dict = []\<rparr>] @ [[''Stage'', ''ABC'']])
       = Some [''Stage'', ''WithParams'', ''Generic'', ''ABC'', ''object'']"
    by (simp add: c3_merge.simps Stage_class_def)
  have a: "is_abstract_attr (?t(''AlgoOperator'' \<mapsto> ?k)) ''AlgoOperator'' n"
    if "n \<in> set (''transform'' # ''save'' # ''load'' # abstract_names wp)" for n
  proof (cases "n = ''transform'' \<or> n = ''save'' \<or> n = ''load''")
    case True
    then show ?thesis
      by (auto simp: is_abstract_attr_def resolve_def decl_defs Stage_class_def)
  next
    case False
    with that obtain m where "map_of (rev wp) n = Some m" "m_abstract m"
      using abstract_names_lookup by auto
    with False show ?thesis
      by (simp add: is_abstract_attr_def resolve_def WithParams_class_def Stage_class_def)
  qed
  show "filter (is_abstract_attr (?t(''AlgoOperator'' \<mapsto> ?k)) ''AlgoOperator'')
      (''transform'' # ''save'' # ''load'' # abstract_names wp)
      = ''transform'' # ''save'' # ''load'' # abstract_names wp"
    by (rule filter_True) (use a in blast)
qed (simp_all add: AlgoOperator_def builtins_simps Stage_class_def)

lemma step_Transformer:
  "define_class (builtins(''WithParams'' \<mapsto> WithParams_class wp, ''Stage'' \<mapsto> Stage_class wp,
         ''AlgoOperator'' \<mapsto> AlgoOperator_class wp)) Transformer
     = Inr (builtins(''WithParams'' \<mapsto> WithParams_class wp, ''Stage'' \<mapsto> Stage_class wp,
         ''AlgoOperator'' \<mapsto> AlgoOperator_class wp, ''Transformer'' \<mapsto> Transformer_class wp))"
  unfolding Transformer_class_def
proof (rule define_class_step [where bases = "[''AlgoOperator'', ''ABC'']"
      and cands = "''transform'' # ''save'' # ''load'' # abstract_names wp"
      and ks = "[AlgoOperator_class wp,
                 \<lparr>k_mro = [''ABC'', ''object''], k_abstract = [], k_dict = []\<rparr>]"])
  let ?t = "builtins(''WithParams'' \<mapsto> WithParams_class wp, ''Stage'' \<mapsto> Stage_class wp,
         ''AlgoOperator'' \<mapsto> AlgoOperator_class wp)"
  let ?k = "\<lparr>k_mro = [''Transformer'', ''AlgoOperator'', ''Stage'', ''WithParams'', ''Generic'',
      ''ABC'', ''object''], k_abstract = [], k_dict = []\<rparr>"
  show "c3_merge (map k_mro [AlgoOperator_class wp,
                 \<lparr>k_mro = [''ABC'', ''object''], k_abstract = [], k_dict = []\<rparr>]
         @ [[''AlgoOperator'', ''ABC'']])
       = Some [''AlgoOperator'', ''Stage'', ''WithParams'', ''Generic'', ''ABC'', ''object'']"
    by (simp add: c3_merge.simps AlgoOperator_class_def)
  have a: "is_abstract_attr (?t(''Transformer'' \<mapsto> ?k)) ''Transformer'' n"
    if "n \<in> set (''transform'' # ''save'' # ''load'' # abstract_names wp)" for n
  proof (cases "n = ''transform'' \<or> n = ''save'' \<or> n = ''load''")
    case True
    then show ?thesis
      by (auto simp: is_abstract_attr_def resolve_def decl_defs Stage_class_def
          AlgoOperator_class_def)
  next
    case False
    with that obtain m where "map_of (rev wp) n = Some m" "m_abstract m"
      using abstract_names_lookup by auto
    with False show ?thesis
      by (simp add: is_abstract_attr_def resolve_def WithParams_class_def Stage_class_def
          AlgoOperator_class_def)
  qed
  show "filter (is_abstract_attr (?t(''Transformer'' \<mapsto> ?k)) ''Transformer'')
      (''transform'' # ''save'' # ''load'' # abstract_names wp)
      = ''transform'' # ''save'' # ''load'' # abstract_names wp"
    by (rule filter_True) (use a in blast)
qed (simp_all add: Transformer_def builtins_simps AlgoOperator_class_def)

lemma step_Model:
  "define_class (builtins(''WithParams'' \<mapsto> WithParams_class wp, ''Stage'' \<mapsto> Stage_class wp,
         ''AlgoOperator'' \<mapsto> AlgoOperator_class wp, ''Transformer'' \<mapsto> Transformer_class wp))
       Model
     = Inr (builtins(''WithParams'' \<mapsto> WithParams_class wp, ''Stage'' \<mapsto> Stage_class wp,
         ''AlgoOperator'' \<mapsto> AlgoOperator_class wp, ''Transformer'' \<mapsto> Transformer_class wp,
         ''Model'' \<mapsto> Model_class wp))"
  unfolding Model_class_def
proof (rule define_class_step [where bases = "[''Transformer'', ''ABC'']"
      and cands = "''set_model_data'' # ''get_model_data'' # ''transform'' # ''save'' # ''load''
         # abstract_names wp"
      and ks = "[Transformer_class wp,
                 \<lparr>k_mro = [''ABC'', ''object''], k_abstract = [], k_dict = []\<rparr>]"])
  let ?t = "builtins(''WithParams'' \<mapsto> WithParams_class wp, ''Stage'' \<mapsto> Stage_class wp,
         ''AlgoOperator'' \<mapsto> AlgoOperator_class wp, ''Transformer'' \<mapsto> Transformer_class wp)"
  let ?k = "\<lparr>k_mro = [''Model'', ''Transformer'', ''AlgoOperator'', ''Stage'', ''WithParams'',
      ''Generic'', ''ABC'', ''object''], k_abstract = [],
      k_dict = [(''get_model_data'', get_model_data_decl),
                (''set_model_data'', set_model_data_decl)]\<rparr>"
  let ?P = "is_abstract_attr (?t(''Model'' \<mapsto> ?k)) ''Model''"
  show "c3_merge (map k_mro [Transformer_class wp,
                 \<lparr>k_mro = [''ABC'', ''object''], k_abstract = [], k_dict = []\<rparr>]
         @ [[''Transformer'', ''ABC'']])
       = Some [''Transformer'', ''AlgoOperator'', ''Stage'', ''WithParams'', ''Generic'', ''ABC'',
           ''object'']"
    by (simp add: c3_merge.simps Transformer_class_def)
  have own: "\<not> ?P ''set_model_data''" "\<not> ?P ''get_model_data''"
    by (simp_all add: is_abstract_attr_def resolve_def decl_defs)
  have inh: "?P ''transform''" "?P ''save''" "?P ''load''"
    by (simp_all add: is_abstract_attr_def resolve_def decl_defs Stage_class_def
        AlgoOperator_class_def Transformer_class_def)
  have a: "?P n = (n \<noteq> ''set_model_data'' \<and> n \<noteq> ''get_model_data'')"
    if "n \<in> set (abstract_names wp)" for n
  proof (cases "n \<in> {''set_model_data'', ''get_model_data'', ''transform'', ''save'', ''load''}")
    case True
    with own inh show ?thesis by auto
  next
    case False
    from that obtain m where "map_of (rev wp) n = Some m" "m_abstract m"
      using abstract_names_lookup by auto
    with False show ?thesis
      by (simp add: is_abstract_attr_def resolve_def WithParams_class_def Stage_class_def
          AlgoOperator_class_def Transformer_class_def)
  qed
  have "filter ?P (abstract_names wp)
      = filter (\<lambda>n. n \<noteq> ''set_model_data'' \<and> n \<noteq> ''get_model_data'') (abstract_names wp)"
    by (rule filter_cong) (simp_all add: a)
  with own inh
  show "filter ?P (''set_model_data'' # ''get_model_data'' # ''transform'' # ''save'' # ''load''
         # abstract_names wp)
      = ''transform'' # ''save'' # ''load''
         # filter (\<lambda>n. n \<noteq> ''set_model_data'' \<and> n \<noteq> ''get_model_data'') (abstract_names wp)"
    by simp
qed (simp_all add: Model_def builtins_simps Transformer_class_def)

lemma step_Estimator:
  "define_class (builtins(''WithParams'' \<mapsto> WithParams_class wp, ''Stage'' \<mapsto> Stage_class wp,
         ''AlgoOperator'' \<mapsto> AlgoOperator_class wp, ''Transformer'' \<mapsto> Transformer_class wp,
         ''Model'' \<mapsto> Model_class wp)) Estimator
     = Inr (api_classes wp)"
  unfolding Estimator_class_def api_classes_def
proof (rule define_class_step [where bases = "[''Stage'', ''ABC'']"
      and cands = "''fit'' # ''save'' # ''load'' # abstract_names wp"
      and ks = "[Stage_class wp,
                 \<lparr>k_mro = [''ABC'', ''object''], k_abstract = [], k_dict = []\<rparr>]"])
  let ?t = "builtins(''WithParams'' \<mapsto> WithParams_class wp, ''Stage'' \<mapsto> Stage_class wp,
         ''AlgoOperator'' \<mapsto> AlgoOperator_class wp, ''Transformer'' \<mapsto> Transformer_class wp,
         ''Model'' \<mapsto> Model_class wp)"
  let ?k = "\<lparr>k_mro = [''Estimator'', ''Stage'', ''WithParams'', ''Generic'', ''ABC'', ''object''],
      k_abstract = [], k_dict = [(''fit'', fit_decl)]\<rparr>"
  let ?P = "is_abstract_attr (?t(''Estimator'' \<mapsto> ?k)) ''Estimator''"
  show "mro_entries (c_bases Estimator) = [''Stage'', ''ABC'']"
    by (simp add: Estimator_def)
  show "c3_merge (map k_mro [Stage_class wp,
                 \<lparr>k_mro = [''ABC'', ''object''], k_abstract = [], k_dict = []\<rparr>] @ [[''Stage'', ''ABC'']])
       = Some [''Stage'', ''WithParams'', ''Generic'', ''ABC'', ''object'']"
    by (simp add: c3_merge.simps Stage_class_def)
  have own: "\<not> ?P ''fit''"
    by (simp add: is_abstract_attr_def resolve_def decl_defs)
  have inh: "?P ''save''" "?P ''load''"
    by (simp_all add: is_abstract_attr_def resolve_def decl_defs Stage_class_def)
  have a: "?P n = (n \<noteq> ''fit'')" if "n \<in> set (abstract_names wp)" for n
  proof (cases "n \<in> {''fit'', ''save'', ''load''}")
    case True
    with own inh show ?thesis by auto
  next
    case False
    from that obtain m where "map_of (rev wp) n = Some m" "m_abstract m"
      using abstract_names_lookup by auto
    with False show ?thesis
      by (simp add: is_abstract_attr_def resolve_def WithParams_class_def Stage_class_def)
  qed
  have "filter ?P (abstract_names wp) = filter (\<lambda>n. n \<noteq> ''fit'') (abstract_names wp)"
    by (rule filter_cong) (simp_all add: a)
  with own inh
  show "filter ?P (''fit'' # ''save'' # ''load'' # abstract_names wp)
      = ''save'' # ''load'' # filter (\<lambda>n. n \<noteq> ''fit'') (abstract_names wp)"
    by simp
qed (simp_all add: Estimator_def builtins_simps Stage_class_def)

lemma api_table_eq: "api_table wp = Inr (api_classes wp)"
  by (simp add: api_table_def api_py_def step_WithParams step_Stage step_AlgoOperator
      step_Transformer step_Model step_Estimator)


section \<open>Transformer\<close>

lemma api_classes_simps:
  "api_classes wp ''object'' = Some \<lparr>k_mro = [''object''], k_abstract = [], k_dict = []\<rparr>"
  "api_classes wp ''ABC'' = Some \<lparr>k_mro = [''ABC'', ''object''], k_abstract = [], k_dict = []\<rparr>"
  "api_classes wp ''Generic'' = Some \<lparr>k_mro = [''Generic'', ''object''], k_abstract = [], k_dict = []\<rparr>"
  "api_classes wp ''WithParams'' = Some (WithParams_class wp)"
  "api_classes wp ''Stage'' = Some (Stage_class wp)"
  "api_classes wp ''AlgoOperator'' = Some (AlgoOperator_class wp)"
  "api_classes wp ''Transformer'' = Some (Transformer_class wp)"
  "api_classes wp ''Model'' = Some (Model_class wp)"
  "api_classes wp ''Estimator'' = Some (Estimator_class wp)"
  by (simp_all add: api_classes_def builtins_def)

lemma resolve_Transformer:
  "resolve (api_classes wp) ''Transformer'' n = resolve (api_classes wp) ''AlgoOperator'' n"
  by (simp add: resolve_def api_classes_simps class_defs)

lemma resolve_AlgoOperator_defined:
  "(resolve (api_classes wp) ''AlgoOperator'' n \<noteq> None)
     = (n \<in> {''save'', ''load'', ''transform''} \<union> fst ` set wp)"
proof (cases "n \<in> {''save'', ''load'', ''transform''}")
  case True
  then show ?thesis
    by (auto simp: resolve_def api_classes_simps class_defs)
next
  case False
  have "(map_of (rev wp) n \<noteq> None) = (n \<in> fst ` set wp)"
    by (simp add: map_of_eq_None_iff)
  with False show ?thesis
    by (auto simp: resolve_def api_classes_simps class_defs split: option.splits)
qed

text \<open>
  Claim C8. \<^verbatim>\<open>Transformer\<close> declares no function of its own. After the import, looking up
  any name on \<^verbatim>\<open>Transformer\<close> finds what the same lookup on \<^verbatim>\<open>AlgoOperator\<close> finds (the same
  function of the same class, or nothing), and the names that are found are \<^verbatim>\<open>save\<close>,
  \<^verbatim>\<open>load\<close>, \<^verbatim>\<open>transform\<close> and the names \<^verbatim>\<open>WithParams\<close> provides.
\<close>

theorem Transformer_adds_no_operation:
  assumes "api_table wp = Inr tbl"
  shows "c_methods Transformer = []
    \<and> (\<forall>n. resolve tbl ''Transformer'' n = resolve tbl ''AlgoOperator'' n)
    \<and> (\<forall>n. (resolve tbl ''Transformer'' n \<noteq> None)
          = (n \<in> {''save'', ''load'', ''transform''} \<union> fst ` set wp))"
proof -
  from assms have tbl: "tbl = api_classes wp"
    by (simp add: api_table_eq)
  have "c_methods Transformer = []"
    by (simp add: Transformer_def)
  moreover have "\<forall>n. resolve tbl ''Transformer'' n = resolve tbl ''AlgoOperator'' n"
    unfolding tbl by (simp add: resolve_Transformer)
  moreover have "\<forall>n. (resolve tbl ''Transformer'' n \<noteq> None)
          = (n \<in> {''save'', ''load'', ''transform''} \<union> fst ` set wp)"
    unfolding tbl resolve_Transformer by (rule allI) (rule resolve_AlgoOperator_defined)
  ultimately show ?thesis by blast
qed

theorem Transformer_adds_no_operation_witness:
  "\<exists>tbl. api_table [] = Inr tbl
     \<and> resolve tbl ''Transformer'' ''transform'' = Some (''AlgoOperator'', transform_decl)
     \<and> resolve tbl ''AlgoOperator'' ''transform'' = Some (''AlgoOperator'', transform_decl)
     \<and> resolve tbl ''Transformer'' ''fit'' = None"
proof -
  have t: "api_table [] = Inr (api_classes [])"
    by (rule api_table_eq)
  have "resolve (api_classes []) ''AlgoOperator'' ''transform'' = Some (''AlgoOperator'', transform_decl)"
    by (simp add: resolve_def api_classes_simps class_defs)
  moreover have "resolve (api_classes []) ''AlgoOperator'' ''fit'' = None"
    by (simp add: resolve_def api_classes_simps class_defs)
  ultimately show ?thesis
    using Transformer_adds_no_operation [OF t] t by simp
qed


section \<open>Stage\<close>

lemma Stage_save_load_decls:
  "map fst (c_methods Stage) = [''save'', ''load'']"
  "map_of (c_methods Stage) ''save'' = Some save_decl"
  "map_of (c_methods Stage) ''load'' = Some load_decl"
  by (simp_all add: Stage_def)

lemma resolve_Stage:
  "resolve (api_classes wp) ''Stage'' ''save'' = Some (''Stage'', save_decl)"
  "resolve (api_classes wp) ''Stage'' ''load'' = Some (''Stage'', load_decl)"
  by (simp_all add: resolve_def api_classes_simps class_defs)

lemma bind_ok_save: "bind_ok save_decl args = (length args = 1)"
  by (simp add: bind_ok_def save_decl_def)

lemma bind_ok_load: "bind_ok load_decl args = (length args = 2)"
  by (simp add: bind_ok_def load_decl_def numeral_2_eq_2)

section \<open>Subclasses of the module's classes\<close>

lemmas client_defs = client_save_def client_load_def client_transform_def client_fit_def

lemma define_concrete_subclass:
  assumes b: "tbl b = Some kb" and "mro_entries (c_bases d) = [b]"
    and "c3_merge [k_mro kb, [b]] = Some (k_mro kb)"
    and "''ABC'' \<in> set (k_mro kb)"
    and conc: "list_all (\<lambda>(n, m). \<not> m_abstract m) (c_methods d)"
    and cover: "set (k_abstract kb) \<subseteq> fst ` set (c_methods d)"
  shows "define_class tbl d =
    Inr (tbl(c_name d \<mapsto> \<lparr>k_mro = c_name d # k_mro kb, k_abstract = [], k_dict = rev (c_methods d)\<rparr>))"
proof (rule define_class_step [where bases = "[b]" and ks = "[kb]"
      and cands = "map fst (c_methods d) @ k_abstract kb"])
  let ?t = "tbl(c_name d \<mapsto> \<lparr>k_mro = c_name d # k_mro kb, k_abstract = [], k_dict = rev (c_methods d)\<rparr>)"
  have "\<not> is_abstract_attr ?t (c_name d) n" if "n \<in> fst ` set (c_methods d)" for n
  proof -
    from that have "map_of (rev (c_methods d)) n \<noteq> None"
      by (simp add: map_of_eq_None_iff)
    then obtain m where m: "map_of (rev (c_methods d)) n = Some m"
      by blast
    then have "(n, m) \<in> set (c_methods d)"
      by (auto dest: map_of_SomeD)
    with conc have "\<not> m_abstract m"
      by (auto simp: list_all_iff)
    with m show ?thesis
      by (simp add: is_abstract_attr_def resolve_def)
  qed
  with cover show "filter (is_abstract_attr ?t (c_name d)) (map fst (c_methods d) @ k_abstract kb) = []"
    by (auto simp: filter_empty_conv)
qed (use assms in simp_all)

lemma define_ClientModel:
  assumes "implements impl wp"
  shows "define_class (api_classes wp) (ClientModel impl) =
    Inr ((api_classes wp)(''ClientModel'' \<mapsto>
      \<lparr>k_mro = ''ClientModel'' # k_mro (Model_class wp), k_abstract = [],
       k_dict = rev (c_methods (ClientModel impl))\<rparr>))"
proof -
  have m: "c3_merge [k_mro (Model_class wp), [''Model'']] = Some (k_mro (Model_class wp))"
    by (simp add: Model_class_def c3_merge.simps)
  have conc: "list_all (\<lambda>(n, m). \<not> m_abstract m) (c_methods (ClientModel impl))"
    using assms by (simp add: implements_def ClientModel_def client_defs)
  have cover: "set (k_abstract (Model_class wp)) \<subseteq> fst ` set (c_methods (ClientModel impl))"
    using assms by (auto simp: implements_def ClientModel_def Model_class_def list_all_iff)
  have "define_class (api_classes wp) (ClientModel impl) =
    Inr ((api_classes wp)(c_name (ClientModel impl) \<mapsto>
      \<lparr>k_mro = c_name (ClientModel impl) # k_mro (Model_class wp), k_abstract = [],
       k_dict = rev (c_methods (ClientModel impl))\<rparr>))"
    by (rule define_concrete_subclass [where b = "''Model''", OF _ _ m _ conc cover])
      (simp_all add: api_classes_simps ClientModel_def Model_class_def)
  then show ?thesis
    by (simp add: ClientModel_def)
qed


section \<open>Model\<close>

text \<open>
  Claim C2. On an object whose class does not override \<^verbatim>\<open>set_model_data\<close> (the lookup on
  its class finds the function of \<^verbatim>\<open>Model\<close>), calling \<^verbatim>\<open>set_model_data\<close> with any list of
  tables, the empty list included, raises
  \<^verbatim>\<open>Exception("This operation is not supported.")\<close>; it returns no value.
\<close>

theorem default_set_model_data_raises:
  assumes "resolve tbl c ''set_model_data'' = Some (''Model'', set_model_data_decl)"
  shows "call_method tbl (PyObject c i) ''set_model_data'' (map PyTable inputs)
        = Inl (PyExc Exception ''This operation is not supported.'')
    \<and> (\<forall>v. call_method tbl (PyObject c i) ''set_model_data'' (map PyTable inputs) \<noteq> Inr v)"
  using assms
  by (simp add: call_method_def bind_ok_def set_model_data_decl_def Model_set_model_data_def)

lemma ClientModel_table:
  "exec_module (api_classes []) [ClientModel []] =
    Inr ((api_classes [])(''ClientModel'' \<mapsto>
      \<lparr>k_mro = ''ClientModel'' # k_mro (Model_class []), k_abstract = [],
       k_dict = rev (c_methods (ClientModel []))\<rparr>))"
  by (simp add: define_ClientModel implements_def abstract_names_def)

lemma resolve_ClientModel:
  "resolve ((api_classes [])(''ClientModel'' \<mapsto>
      \<lparr>k_mro = ''ClientModel'' # k_mro (Model_class []), k_abstract = [],
       k_dict = rev (c_methods (ClientModel []))\<rparr>)) ''ClientModel'' ''set_model_data''
    = Some (''Model'', set_model_data_decl)"
  "resolve ((api_classes [])(''ClientModel'' \<mapsto>
      \<lparr>k_mro = ''ClientModel'' # k_mro (Model_class []), k_abstract = [],
       k_dict = rev (c_methods (ClientModel []))\<rparr>)) ''ClientModel'' ''get_model_data''
    = Some (''Model'', get_model_data_decl)"
  by (simp_all add: resolve_def ClientModel_def api_classes_simps class_defs)

theorem default_set_model_data_raises_witness:
  "\<exists>t0 tbl. api_table [] = Inr t0 \<and> exec_module t0 [ClientModel []] = Inr tbl
     \<and> instantiate tbl ''ClientModel'' 7 = Inr (PyObject ''ClientModel'' 7)
     \<and> call_method tbl (PyObject ''ClientModel'' 7) ''set_model_data'' []
         = Inl (PyExc Exception ''This operation is not supported.'')
     \<and> call_method tbl (PyObject ''ClientModel'' 7) ''set_model_data'' [PyTable 1, PyTable 2]
         = Inl (PyExc Exception ''This operation is not supported.'')"
proof -
  let ?tbl = "(api_classes [])(''ClientModel'' \<mapsto>
      \<lparr>k_mro = ''ClientModel'' # k_mro (Model_class []), k_abstract = [],
       k_dict = rev (c_methods (ClientModel []))\<rparr>)"
  have "instantiate ?tbl ''ClientModel'' 7 = Inr (PyObject ''ClientModel'' 7)"
    by (simp add: instantiate_def)
  moreover note default_set_model_data_raises [OF resolve_ClientModel(1), of 7 "[]"]
    default_set_model_data_raises [OF resolve_ClientModel(1), of 7 "[1, 2]"]
  ultimately show ?thesis
    using api_table_eq [of "[]"] ClientModel_table by simp
qed


text \<open>
  Claim C3. On an object whose class does not override \<^verbatim>\<open>get_model_data\<close> (the lookup on
  its class finds the function of \<^verbatim>\<open>Model\<close>), calling \<^verbatim>\<open>get_model_data()\<close> raises
  \<^verbatim>\<open>Exception("This operation is not supported.")\<close>; it returns no value.
\<close>

theorem default_get_model_data_raises:
  assumes "resolve tbl c ''get_model_data'' = Some (''Model'', get_model_data_decl)"
  shows "call_method tbl (PyObject c i) ''get_model_data'' []
        = Inl (PyExc Exception ''This operation is not supported.'')
    \<and> (\<forall>v. call_method tbl (PyObject c i) ''get_model_data'' [] \<noteq> Inr v)"
  using assms
  by (simp add: call_method_def bind_ok_def get_model_data_decl_def Model_get_model_data_def)

theorem default_get_model_data_raises_witness:
  "\<exists>t0 tbl. api_table [] = Inr t0 \<and> exec_module t0 [ClientModel []] = Inr tbl
     \<and> instantiate tbl ''ClientModel'' 7 = Inr (PyObject ''ClientModel'' 7)
     \<and> call_method tbl (PyObject ''ClientModel'' 7) ''get_model_data'' []
         = Inl (PyExc Exception ''This operation is not supported.'')"
proof -
  let ?tbl = "(api_classes [])(''ClientModel'' \<mapsto>
      \<lparr>k_mro = ''ClientModel'' # k_mro (Model_class []), k_abstract = [],
       k_dict = rev (c_methods (ClientModel []))\<rparr>)"
  have "instantiate ?tbl ''ClientModel'' 7 = Inr (PyObject ''ClientModel'' 7)"
    by (simp add: instantiate_def)
  moreover note default_get_model_data_raises [OF resolve_ClientModel(2), of 7]
  ultimately show ?thesis
    using api_table_eq [of "[]"] ClientModel_table by simp
qed

lemma catches_Exception_iff:
  "catches h (PyExc Exception msg) = (h = Exception \<or> h = BaseException)"
  by (auto simp: catches_def)

lemma catches_upward:
  "catches Exception e \<Longrightarrow> catches BaseException e"
  by (cases e; cases "exc_type_of e") (auto simp: catches_def)

text \<open>
  Claim C9. Both default functions raise \<^verbatim>\<open>Exception("This operation is not supported.")\<close>:
  the class of the exception is \<^verbatim>\<open>Exception\<close> itself. A handler for a more specific class
  such as \<^verbatim>\<open>NotImplementedError\<close> does not catch it, and every handler \<open>h\<close> that catches it
  catches every exception \<open>e\<close> that \<^verbatim>\<open>except Exception\<close> catches.
\<close>

theorem unsupported_is_bare_Exception:
  "Model_set_model_data self inputs = Inl (PyExc Exception ''This operation is not supported.'')
   \<and> Model_get_model_data self args = Inl (PyExc Exception ''This operation is not supported.'')
   \<and> exc_type_of (PyExc Exception ''This operation is not supported.'') = Exception
   \<and> \<not> catches NotImplementedError (PyExc Exception ''This operation is not supported.'')
   \<and> (catches h (PyExc Exception ''This operation is not supported.'')
        \<longrightarrow> catches Exception e \<longrightarrow> catches h e)"
proof -
  have "catches h (PyExc Exception ''This operation is not supported.'')
        \<longrightarrow> catches Exception e \<longrightarrow> catches h e"
    using catches_upward [of e] by (auto simp: catches_Exception_iff)
  moreover have "\<not> catches NotImplementedError (PyExc Exception ''This operation is not supported.'')"
    by (simp add: catches_Exception_iff)
  ultimately show ?thesis
    by (simp add: Model_set_model_data_def Model_get_model_data_def)
qed

theorem unsupported_is_bare_Exception_witness:
  "catches Exception (PyExc Exception ''This operation is not supported.'')
   \<and> catches Exception (PyExc TypeError ''unrelated'')
   \<and> Model_get_model_data (PyObject ''ClientModel'' 0) []
       = Model_set_model_data (PyObject ''ClientModel'' 0) [PyTable 1]"
  using unsupported_is_bare_Exception [of "PyObject ''ClientModel'' 0" "[PyTable 1]" "[]"
      Exception "PyExc TypeError ''unrelated''"]
  by (simp add: catches_def)


section \<open>Abstract classes and instantiation\<close>

lemma instantiate_abstract:
  "instantiate (api_classes wp) ''Stage'' i = Inl (PyExc TypeError ''Cannot instantiate abstract class'')"
  "instantiate (api_classes wp) ''AlgoOperator'' i = Inl (PyExc TypeError ''Cannot instantiate abstract class'')"
  "instantiate (api_classes wp) ''Transformer'' i = Inl (PyExc TypeError ''Cannot instantiate abstract class'')"
  "instantiate (api_classes wp) ''Model'' i = Inl (PyExc TypeError ''Cannot instantiate abstract class'')"
  "instantiate (api_classes wp) ''Estimator'' i = Inl (PyExc TypeError ''Cannot instantiate abstract class'')"
  by (simp_all add: instantiate_def api_classes_simps class_defs)

lemma abstractmethods_api:
  "abstractmethods (api_classes wp) ''Stage'' = ''save'' # ''load'' # abstract_names wp"
  "abstractmethods (api_classes wp) ''AlgoOperator''
     = ''transform'' # ''save'' # ''load'' # abstract_names wp"
  "abstractmethods (api_classes wp) ''Transformer''
     = ''transform'' # ''save'' # ''load'' # abstract_names wp"
  "abstractmethods (api_classes wp) ''Model'' = ''transform'' # ''save'' # ''load'' #
     filter (\<lambda>n. n \<noteq> ''set_model_data'' \<and> n \<noteq> ''get_model_data'') (abstract_names wp)"
  "abstractmethods (api_classes wp) ''Estimator''
     = ''save'' # ''load'' # filter (\<lambda>n. n \<noteq> ''fit'') (abstract_names wp)"
  by (simp_all add: abstractmethods_def api_classes_simps class_defs)

lemma define_ClientEstimator_only:
  "define_class (api_classes wp) (ClientEstimator []) =
    Inr ((api_classes wp)(''ClientEstimator'' \<mapsto>
      \<lparr>k_mro = ''ClientEstimator'' # k_mro (Estimator_class wp),
       k_abstract = filter (\<lambda>n. n \<noteq> ''fit'' \<and> n \<noteq> ''save'' \<and> n \<noteq> ''load'') (abstract_names wp),
       k_dict = [(''load'', client_load), (''save'', client_save)]\<rparr>))"
proof -
  let ?k = "\<lparr>k_mro = ''ClientEstimator'' # k_mro (Estimator_class wp), k_abstract = [],
       k_dict = [(''load'', client_load), (''save'', client_save)]\<rparr>"
  let ?P = "is_abstract_attr ((api_classes wp)(''ClientEstimator'' \<mapsto> ?k)) ''ClientEstimator''"
  have own: "\<not> ?P ''save''" "\<not> ?P ''load''"
    by (simp_all add: is_abstract_attr_def resolve_def client_defs)
  have a: "?P n = (n \<noteq> ''save'' \<and> n \<noteq> ''load'')"
    if "n \<in> set (abstract_names wp)" "n \<noteq> ''fit''" for n
  proof (cases "n = ''save'' \<or> n = ''load''")
    case True
    with own show ?thesis by auto
  next
    case False
    from that obtain m where "map_of (rev wp) n = Some m" "m_abstract m"
      using abstract_names_lookup by auto
    with False that show ?thesis
      by (simp add: is_abstract_attr_def resolve_def api_classes_simps class_defs)
  qed
  have "filter ?P (filter (\<lambda>n. n \<noteq> ''fit'') (abstract_names wp))
      = filter (\<lambda>n. n \<noteq> ''fit'' \<and> n \<noteq> ''save'' \<and> n \<noteq> ''load'') (abstract_names wp)"
    unfolding filter_filter by (rule filter_cong) (use a in auto)
  with own have f: "filter ?P (''save'' # ''load'' # ''save'' # ''load''
        # filter (\<lambda>n. n \<noteq> ''fit'') (abstract_names wp))
      = filter (\<lambda>n. n \<noteq> ''fit'' \<and> n \<noteq> ''save'' \<and> n \<noteq> ''load'') (abstract_names wp)"
    by simp
  have m: "c3_merge (map k_mro [Estimator_class wp] @ [[''Estimator'']])
      = Some (k_mro (Estimator_class wp))"
    by (simp add: Estimator_class_def c3_merge.simps)
  show ?thesis
    by (rule define_class_step [where bases = "[''Estimator'']" and ks = "[Estimator_class wp]"
          and cands = "''save'' # ''load'' # ''save'' # ''load''
            # filter (\<lambda>n. n \<noteq> ''fit'') (abstract_names wp)", OF _ _ _ _ m _ _ _ f])
      (simp_all add: ClientEstimator_def api_classes_simps Estimator_class_def)
qed

lemma resolve_ClientEstimator_fit:
  assumes "tbl = (api_classes wp)(''ClientEstimator'' \<mapsto>
      \<lparr>k_mro = ''ClientEstimator'' # k_mro (Estimator_class wp), k_abstract = a,
       k_dict = [(''load'', client_load), (''save'', client_save)] @ rev impl\<rparr>)"
    and "''fit'' \<notin> fst ` set impl"
  shows "resolve tbl ''ClientEstimator'' ''fit'' = Some (''Estimator'', fit_decl)"
proof -
  from assms(2) have "map_of (rev impl) ''fit'' = None"
    by (simp add: map_of_eq_None_iff)
  then show ?thesis
    unfolding assms(1)
    by (simp add: resolve_def api_classes_simps class_defs)
qed

section \<open>Estimator\<close>

lemma define_ClientEstimator:
  assumes "implements impl wp"
  shows "define_class (api_classes wp) (ClientEstimator impl) =
    Inr ((api_classes wp)(''ClientEstimator'' \<mapsto>
      \<lparr>k_mro = ''ClientEstimator'' # k_mro (Estimator_class wp), k_abstract = [],
       k_dict = [(''load'', client_load), (''save'', client_save)] @ rev impl\<rparr>))"
proof -
  have m: "c3_merge [k_mro (Estimator_class wp), [''Estimator'']] = Some (k_mro (Estimator_class wp))"
    by (simp add: Estimator_class_def c3_merge.simps)
  have conc: "list_all (\<lambda>(n, m). \<not> m_abstract m) (c_methods (ClientEstimator impl))"
    using assms by (simp add: implements_def ClientEstimator_def client_defs)
  have cover: "set (k_abstract (Estimator_class wp)) \<subseteq> fst ` set (c_methods (ClientEstimator impl))"
    using assms by (auto simp: implements_def ClientEstimator_def Estimator_class_def list_all_iff)
  have "define_class (api_classes wp) (ClientEstimator impl) =
    Inr ((api_classes wp)(c_name (ClientEstimator impl) \<mapsto>
      \<lparr>k_mro = c_name (ClientEstimator impl) # k_mro (Estimator_class wp), k_abstract = [],
       k_dict = rev (c_methods (ClientEstimator impl))\<rparr>))"
    by (rule define_concrete_subclass [where b = "''Estimator''", OF _ _ m _ conc cover])
      (simp_all add: api_classes_simps ClientEstimator_def Estimator_class_def)
  then show ?thesis
    by (simp add: ClientEstimator_def)
qed

text \<open>
  Claim C1, where the code departs from it. A subclass of \<^verbatim>\<open>Estimator\<close> that defines
  \<^verbatim>\<open>save\<close> and \<^verbatim>\<open>load\<close>, implements what \<^verbatim>\<open>WithParams\<close> leaves abstract and does not
  define \<^verbatim>\<open>fit\<close> can be defined and instantiated. Its instance is an \<^verbatim>\<open>Estimator\<close>, and
  calling \<^verbatim>\<open>fit\<close> on it with any list of tables returns \<^verbatim>\<open>None\<close>, which is not an
  instance of \<^verbatim>\<open>Model\<close> and which the return annotation \<^verbatim>\<open>Model[M]\<close> does not admit.
\<close>

theorem inherited_fit_returns_None:
  assumes "api_table wp = Inr t0" and "implements impl wp" and "''fit'' \<notin> fst ` set impl"
  shows "\<exists>tbl. define_class t0 (ClientEstimator impl) = Inr tbl
     \<and> instantiate tbl ''ClientEstimator'' i = Inr (PyObject ''ClientEstimator'' i)
     \<and> isinstance tbl (PyObject ''ClientEstimator'' i) ''Estimator''
     \<and> call_method tbl (PyObject ''ClientEstimator'' i) ''fit'' (map PyTable inputs) = Inr PyNone
     \<and> \<not> isinstance tbl PyNone ''Model''
     \<and> \<not> conforms tbl env (m_returns fit_decl) PyNone"
proof -
  from assms(1) have t0: "t0 = api_classes wp"
    by (simp add: api_table_eq)
  define tbl where "tbl = (api_classes wp)(''ClientEstimator'' \<mapsto>
      \<lparr>k_mro = ''ClientEstimator'' # k_mro (Estimator_class wp), k_abstract = [],
       k_dict = [(''load'', client_load), (''save'', client_save)] @ rev impl\<rparr>)"
  have d: "define_class t0 (ClientEstimator impl) = Inr tbl"
    unfolding t0 tbl_def by (rule define_ClientEstimator) (rule assms(2))
  have r: "resolve tbl ''ClientEstimator'' ''fit'' = Some (''Estimator'', fit_decl)"
    by (rule resolve_ClientEstimator_fit [OF tbl_def assms(3)])
  have c: "call_method tbl (PyObject ''ClientEstimator'' i) ''fit'' (map PyTable inputs) = Inr PyNone"
    by (simp add: call_method_def r bind_ok_def fit_decl_def Estimator_fit_def)
  have n: "instantiate tbl ''ClientEstimator'' i = Inr (PyObject ''ClientEstimator'' i)"
    by (simp add: instantiate_def tbl_def)
  have s: "isinstance tbl (PyObject ''ClientEstimator'' i) ''Estimator''"
    by (simp add: issubclass_def tbl_def Estimator_class_def)
  have "\<not> conforms tbl env (m_returns fit_decl) PyNone"
    by (simp add: fit_decl_def)
  with d r c n s show ?thesis
    by auto
qed

theorem inherited_fit_returns_None_witness:
  "\<exists>t0 tbl. api_table [] = Inr t0 \<and> define_class t0 (ClientEstimator []) = Inr tbl
     \<and> instantiate tbl ''ClientEstimator'' 3 = Inr (PyObject ''ClientEstimator'' 3)
     \<and> call_method tbl (PyObject ''ClientEstimator'' 3) ''fit'' [] = Inr PyNone
     \<and> call_method tbl (PyObject ''ClientEstimator'' 3) ''fit'' [PyTable 1, PyTable 2] = Inr PyNone
     \<and> \<not> isinstance tbl PyNone ''Model''"
proof -
  have i: "implements [] []"
    by (simp add: implements_def abstract_names_def)
  have f: "''fit'' \<notin> fst ` set ([] :: (name \<times> method_decl) list)"
    by simp
  from inherited_fit_returns_None [OF api_table_eq i f, of 3 "[]" Map.empty]
  obtain tbl where tbl: "define_class (api_classes []) (ClientEstimator []) = Inr tbl"
    "instantiate tbl ''ClientEstimator'' 3 = Inr (PyObject ''ClientEstimator'' 3)"
    "call_method tbl (PyObject ''ClientEstimator'' 3) ''fit'' [] = Inr PyNone"
    by auto
  from inherited_fit_returns_None [OF api_table_eq i f, of 3 "[1, 2]" Map.empty] tbl(1)
  have "call_method tbl (PyObject ''ClientEstimator'' 3) ''fit'' [PyTable 1, PyTable 2] = Inr PyNone"
    by auto
  with tbl api_table_eq [of "[]"] show ?thesis
    by auto
qed


text \<open>
  The scenario in which the claim does hold: an estimator that overrides \<^verbatim>\<open>fit\<close> by a
  function that ignores its inputs and returns \<open>M\<close> returns exactly \<open>M\<close> for every list of
  inputs.
\<close>

lemma overriding_fit_returns_its_value:
  assumes "api_table wp = Inr t0" and "implements impl wp"
  shows "\<exists>tbl. define_class t0 (FixedEstimator impl M) = Inr tbl
     \<and> instantiate tbl ''FixedEstimator'' i = Inr (PyObject ''FixedEstimator'' i)
     \<and> (\<forall>inputs. call_method tbl (PyObject ''FixedEstimator'' i) ''fit'' inputs = Inr M)"
proof -
  from assms(1) have t0: "t0 = api_classes wp"
    by (simp add: api_table_eq)
  define tbl where "tbl = (api_classes wp)(''FixedEstimator'' \<mapsto>
      \<lparr>k_mro = ''FixedEstimator'' # k_mro (Estimator_class wp), k_abstract = [],
       k_dict = rev (c_methods (FixedEstimator impl M))\<rparr>)"
  have mg: "c3_merge [k_mro (Estimator_class wp), [''Estimator'']] = Some (k_mro (Estimator_class wp))"
    by (simp add: Estimator_class_def c3_merge.simps)
  have conc: "list_all (\<lambda>(n, m). \<not> m_abstract m) (c_methods (FixedEstimator impl M))"
    using assms(2) by (simp add: implements_def FixedEstimator_def client_defs)
  have cover: "set (k_abstract (Estimator_class wp)) \<subseteq> fst ` set (c_methods (FixedEstimator impl M))"
    using assms(2)
    by (auto simp: implements_def FixedEstimator_def Estimator_class_def list_all_iff)
  have "define_class (api_classes wp) (FixedEstimator impl M) =
    Inr ((api_classes wp)(c_name (FixedEstimator impl M) \<mapsto>
      \<lparr>k_mro = c_name (FixedEstimator impl M) # k_mro (Estimator_class wp), k_abstract = [],
       k_dict = rev (c_methods (FixedEstimator impl M))\<rparr>))"
    by (rule define_concrete_subclass [where b = "''Estimator''", OF _ _ mg _ conc cover])
      (simp_all add: api_classes_simps FixedEstimator_def Estimator_class_def)
  then have d: "define_class t0 (FixedEstimator impl M) = Inr tbl"
    by (simp add: t0 tbl_def FixedEstimator_def)
  have r: "resolve tbl ''FixedEstimator'' ''fit'' = Some (''FixedEstimator'', client_fit M)"
    by (simp add: resolve_def tbl_def FixedEstimator_def)
  have c: "call_method tbl (PyObject ''FixedEstimator'' i) ''fit'' inputs = Inr M" for inputs
    by (simp add: call_method_def r bind_ok_def client_fit_def)
  have n: "instantiate tbl ''FixedEstimator'' i = Inr (PyObject ''FixedEstimator'' i)"
    by (simp add: instantiate_def tbl_def)
  from d n c show ?thesis
    by blast
qed

section \<open>Class definitions in general\<close>

text \<open>
  The resolution order that the merge computes has exactly the members of the merged
  sequences, so a new class has every ancestor of each of its bases. Classes that are
  already defined keep their entries as long as their names are not reused.
\<close>

lemma those_Some: "those xs = Some ys \<Longrightarrow> xs = map Some ys"
  by (induction xs arbitrary: ys) (auto split: option.splits)

lemma c3_merge_set: "c3_merge seqs = Some r \<Longrightarrow> set r = \<Union> (set ` set seqs)"
proof (induction seqs arbitrary: r rule: c3_merge.induct)
  case (1 seqs)
  define ne where "ne = filter (\<lambda>s. s \<noteq> []) seqs"
  show ?case
  proof (cases "ne = []")
    case True
    with "1.prems" have "r = []"
      by (subst (asm) c3_merge.simps) (simp add: ne_def Let_def)
    moreover from True have "\<Union> (set ` set seqs) = {}"
      by (auto simp: ne_def filter_empty_conv)
    ultimately show ?thesis by simp
  next
    case False
    let ?rm = "\<lambda>cand s. if hd s = cand then tl s else s"
    from False "1.prems" obtain cand r' where
      found: "find (\<lambda>cand. list_all (\<lambda>s. cand \<notin> set (tl s)) ne) (map hd ne) = Some cand"
      and rec: "c3_merge (map (?rm cand) ne) = Some r'" and r: "r = cand # r'"
      by (subst (asm) c3_merge.simps) (auto simp: ne_def Let_def split: option.splits)
    from "1.IH" [OF ne_def False found rec]
    have IH: "set r' = \<Union> (set ` set (map (?rm cand) ne))" .
    from found have "cand \<in> set (map hd ne)"
      by (auto simp: find_Some_iff)
    then obtain s0 where s0: "s0 \<in> set ne" "hd s0 = cand"
      by auto
    then have "s0 \<noteq> []" "s0 \<in> set seqs"
      by (auto simp: ne_def)
    with s0 have cand: "cand \<in> \<Union> (set ` set seqs)"
      by (metis UN_I hd_in_set)
    have sub: "\<Union> (set ` set (map (?rm cand) ne)) \<subseteq> \<Union> (set ` set seqs)"
      by (auto simp: ne_def dest: list.set_sel(2) split: if_splits)
    have sup: "x \<in> insert cand (\<Union> (set ` set (map (?rm cand) ne)))"
      if "x \<in> \<Union> (set ` set seqs)" for x
    proof -
      from that obtain s where s: "s \<in> set seqs" "x \<in> set s"
        by auto
      then have sne: "s \<in> set ne" "s \<noteq> []"
        by (auto simp: ne_def)
      show ?thesis
      proof (cases "hd s = cand")
        case True
        obtain a as where "s = a # as"
          using sne(2) by (auto simp: neq_Nil_conv)
        with s True have "x = cand \<or> x \<in> set (tl s)"
          by auto
        with True sne show ?thesis
          by (auto intro!: bexI [of _ s])
      next
        case False
        with s sne show ?thesis
          by (auto intro!: bexI [of _ s])
      qed
    qed
    have "insert cand (\<Union> (set ` set (map (?rm cand) ne))) = \<Union> (set ` set seqs)"
      using cand sub sup by blast
    moreover have "set r = insert cand (\<Union> (set ` set (map (?rm cand) ne)))"
      unfolding r IH [symmetric] by simp
    ultimately show ?thesis
      by (simp only:)
  qed
qed


lemma define_class_InrD:
  assumes "define_class tbl d = Inr tbl'"
  obtains bases ks rest a where "those (map tbl bases) = Some ks"
    and "c3_merge (map k_mro ks @ [bases]) = Some rest"
    and "tbl' = tbl(c_name d \<mapsto>
      \<lparr>k_mro = c_name d # rest, k_abstract = a, k_dict = rev (c_methods d)\<rparr>)"
  using assms by (auto simp: define_class_def Let_def split: option.splits)

lemma define_class_ancestors:
  assumes d: "define_class tbl d = Inr tbl'" and fresh: "c_name d \<noteq> m"
    and m: "tbl m = Some km" "m \<in> set (k_mro km)"
    and inv: "\<forall>c k. tbl c = Some k \<longrightarrow> m \<in> set (k_mro k) \<longrightarrow> S \<subseteq> set (k_mro k)"
  shows "tbl' m = Some km"
    and "\<forall>c k. tbl' c = Some k \<longrightarrow> m \<in> set (k_mro k) \<longrightarrow> S \<subseteq> set (k_mro k)"
proof -
  from d obtain bases ks rest a where bases: "those (map tbl bases) = Some ks"
    and merge: "c3_merge (map k_mro ks @ [bases]) = Some rest"
    and tbl': "tbl' = tbl(c_name d \<mapsto>
      \<lparr>k_mro = c_name d # rest, k_abstract = a, k_dict = rev (c_methods d)\<rparr>)"
    by (rule define_class_InrD)
  from fresh m show "tbl' m = Some km"
    by (simp add: tbl')
  from bases have ks: "map tbl bases = map Some ks"
    by (rule those_Some)
  from c3_merge_set [OF merge]
  have rest: "set rest = \<Union> (set ` set (map k_mro ks)) \<union> set bases"
    by (simp add: Un_commute)
  have new: "S \<subseteq> set rest" if "m \<in> set rest"
  proof -
    from that rest consider k where "k \<in> set ks" "m \<in> set (k_mro k)" | "m \<in> set bases"
      by auto
    then obtain k where k: "k \<in> set ks" "m \<in> set (k_mro k)"
    proof cases
      case 1
      then show ?thesis by (rule that)
    next
      case 2
      then have "tbl m \<in> set (map tbl bases)"
        by simp
      with ks m(1) have "km \<in> set ks"
        by auto
      then show ?thesis using m(2) by (rule that)
    qed
    from k(1) have "Some k \<in> set (map tbl bases)"
      unfolding ks by simp
    then obtain b where "tbl b = Some k"
      by auto
    with inv k(2) have "S \<subseteq> set (k_mro k)"
      by blast
    with k(1) rest show ?thesis
      by auto
  qed
  show "\<forall>c k. tbl' c = Some k \<longrightarrow> m \<in> set (k_mro k) \<longrightarrow> S \<subseteq> set (k_mro k)"
  proof (intro allI impI)
    fix c k
    assume c: "tbl' c = Some k" and mk: "m \<in> set (k_mro k)"
    show "S \<subseteq> set (k_mro k)"
    proof (cases "c = c_name d")
      case True
      with c have k: "k_mro k = c_name d # rest"
        by (auto simp: tbl')
      with mk fresh have "m \<in> set rest"
        by auto
      then have "S \<subseteq> set rest"
        by (rule new)
      with k show ?thesis by auto
    next
      case False
      with c have "tbl c = Some k"
        by (simp add: tbl')
      with inv mk show ?thesis by blast
    qed
  qed
qed

lemma exec_module_ancestors:
  assumes "exec_module t0 ds = Inr tbl" and "m \<notin> c_name ` set ds"
    and "t0 m = Some km" and "m \<in> set (k_mro km)"
    and "\<forall>c k. t0 c = Some k \<longrightarrow> m \<in> set (k_mro k) \<longrightarrow> S \<subseteq> set (k_mro k)"
  shows "tbl m = Some km
    \<and> (\<forall>c k. tbl c = Some k \<longrightarrow> m \<in> set (k_mro k) \<longrightarrow> S \<subseteq> set (k_mro k))"
  using assms
proof (induction ds arbitrary: t0)
  case Nil
  then show ?case by simp
next
  case (Cons d ds)
  from Cons.prems(1) obtain t1 where d: "define_class t0 d = Inr t1"
    and rest: "exec_module t1 ds = Inr tbl"
    by (auto split: sum.splits)
  from Cons.prems(2) have fresh: "c_name d \<noteq> m" "m \<notin> c_name ` set ds"
    by auto
  note step = define_class_ancestors [OF d fresh(1) Cons.prems(3,4,5)]
  show ?case
    by (rule Cons.IH [OF rest fresh(2) step(1) Cons.prems(4) step(2)])
qed

lemma lookup_mro_defined:
  "b \<in> set L \<Longrightarrow> tbl b = Some kb \<Longrightarrow> map_of (k_dict kb) n \<noteq> None \<Longrightarrow> lookup_mro tbl L n \<noteq> None"
  by (induction L) (auto split: option.splits)


lemma exec_module_other:
  "exec_module t0 ds = Inr tbl \<Longrightarrow> c \<notin> c_name ` set ds \<Longrightarrow> tbl c = t0 c"
proof (induction ds arbitrary: t0)
  case Nil
  then show ?case by simp
next
  case (Cons d ds)
  from Cons.prems(1) obtain t1 where d: "define_class t0 d = Inr t1"
    and rest: "exec_module t1 ds = Inr tbl"
    by (auto split: sum.splits)
  from d Cons.prems(2) have "t1 c = t0 c"
    by (auto elim!: define_class_InrD)
  with Cons.IH [OF rest] Cons.prems(2) show ?case
    by simp
qed

lemma api_Model_ancestors:
  "\<forall>c k. api_classes wp c = Some k \<longrightarrow> ''Model'' \<in> set (k_mro k)
     \<longrightarrow> {''Transformer'', ''AlgoOperator'', ''Stage''} \<subseteq> set (k_mro k)"
  by (auto simp: api_classes_def builtins_def class_defs split: if_splits)

text \<open>
  Claim C4. Let a client module run after the import, with class statements \<open>ds\<close> that do
  not reuse the names of the module's classes. Then \<^verbatim>\<open>Model\<close> is a subclass of
  \<^verbatim>\<open>Transformer\<close>, \<^verbatim>\<open>Transformer\<close> of \<^verbatim>\<open>AlgoOperator\<close> and \<^verbatim>\<open>AlgoOperator\<close> of \<^verbatim>\<open>Stage\<close>; every
  instance of \<^verbatim>\<open>Model\<close>, of whatever subclass, is an instance of \<^verbatim>\<open>Transformer\<close>, of
  \<^verbatim>\<open>AlgoOperator\<close> and of \<^verbatim>\<open>Stage\<close>; and the operations of those classes, \<^verbatim>\<open>transform\<close>,
  \<^verbatim>\<open>save\<close> and \<^verbatim>\<open>load\<close>, are found on its class.
\<close>

theorem Model_is_Transformer_AlgoOperator_Stage:
  assumes "api_table wp = Inr t0" and "exec_module t0 ds = Inr tbl"
    and "set (map c_name ds) \<inter> set (map c_name api_py) = {}"
  shows "issubclass tbl ''Model'' ''Transformer''
    \<and> issubclass tbl ''Transformer'' ''AlgoOperator''
    \<and> issubclass tbl ''AlgoOperator'' ''Stage''
    \<and> (isinstance tbl v ''Model'' \<longrightarrow>
          isinstance tbl v ''Transformer'' \<and> isinstance tbl v ''AlgoOperator''
          \<and> isinstance tbl v ''Stage'')
    \<and> (isinstance tbl (PyObject c i) ''Model'' \<longrightarrow>
          resolve tbl c ''transform'' \<noteq> None \<and> resolve tbl c ''save'' \<noteq> None
          \<and> resolve tbl c ''load'' \<noteq> None)"
proof -
  from assms(1) have t0: "t0 = api_classes wp"
    by (simp add: api_table_eq)
  from assms(3) have fresh: "''Stage'' \<notin> c_name ` set ds" "''AlgoOperator'' \<notin> c_name ` set ds"
    "''Transformer'' \<notin> c_name ` set ds" "''Model'' \<notin> c_name ` set ds"
    by (auto simp: api_py_def Stage_def AlgoOperator_def Transformer_def Model_def)
  have same: "tbl ''Stage'' = Some (Stage_class wp)"
    "tbl ''AlgoOperator'' = Some (AlgoOperator_class wp)"
    "tbl ''Transformer'' = Some (Transformer_class wp)"
    "tbl ''Model'' = Some (Model_class wp)"
    using fresh by (simp_all add: exec_module_other [OF assms(2)] t0 api_classes_simps)
  have chain: "issubclass tbl ''Model'' ''Transformer''"
    "issubclass tbl ''Transformer'' ''AlgoOperator''"
    "issubclass tbl ''AlgoOperator'' ''Stage''"
    by (simp_all add: issubclass_def same class_defs)
  have "''Model'' \<in> set (k_mro (Model_class wp))"
    by (simp add: Model_class_def)
  from exec_module_ancestors [OF assms(2) [unfolded t0] fresh(4) api_classes_simps(8) this
      api_Model_ancestors]
  have anc: "\<forall>c k. tbl c = Some k \<longrightarrow> ''Model'' \<in> set (k_mro k)
      \<longrightarrow> {''Transformer'', ''AlgoOperator'', ''Stage''} \<subseteq> set (k_mro k)"
    by blast
  have inst: "isinstance tbl v ''Transformer'' \<and> isinstance tbl v ''AlgoOperator''
      \<and> isinstance tbl v ''Stage''" if "isinstance tbl v ''Model''" for v
  proof -
    from that obtain c i k where "v = PyObject c i" "tbl c = Some k" "''Model'' \<in> set (k_mro k)"
      by (cases v) (auto simp: issubclass_def split: option.splits)
    with anc show ?thesis
      by (auto simp: issubclass_def)
  qed
  have ops: "resolve tbl c ''transform'' \<noteq> None \<and> resolve tbl c ''save'' \<noteq> None
      \<and> resolve tbl c ''load'' \<noteq> None" if "isinstance tbl (PyObject c i) ''Model''"
  proof -
    from that obtain k where k: "tbl c = Some k" "''Model'' \<in> set (k_mro k)"
      by (auto simp: issubclass_def split: option.splits)
    with anc have a: "''AlgoOperator'' \<in> set (k_mro k)" and s: "''Stage'' \<in> set (k_mro k)"
      by auto
    have "lookup_mro tbl (k_mro k) ''transform'' \<noteq> None"
      by (rule lookup_mro_defined [where b = "''AlgoOperator''" and kb = "AlgoOperator_class wp"])
        (simp_all add: a same class_defs)
    moreover have "lookup_mro tbl (k_mro k) ''save'' \<noteq> None"
      "lookup_mro tbl (k_mro k) ''load'' \<noteq> None"
      by (rule lookup_mro_defined [where b = "''Stage''" and kb = "Stage_class wp"];
          simp add: s same class_defs)+
    ultimately show ?thesis using k(1)
      by (simp add: resolve_def)
  qed
  from chain inst ops show ?thesis
    by blast
qed

theorem Model_is_Transformer_AlgoOperator_Stage_witness:
  "\<exists>t0 tbl. api_table [] = Inr t0 \<and> exec_module t0 [ClientModel []] = Inr tbl
     \<and> set (map c_name [ClientModel []]) \<inter> set (map c_name api_py) = {}
     \<and> instantiate tbl ''ClientModel'' 0 = Inr (PyObject ''ClientModel'' 0)
     \<and> isinstance tbl (PyObject ''ClientModel'' 0) ''Model''
     \<and> isinstance tbl (PyObject ''ClientModel'' 0) ''Transformer''
     \<and> isinstance tbl (PyObject ''ClientModel'' 0) ''AlgoOperator''
     \<and> isinstance tbl (PyObject ''ClientModel'' 0) ''Stage''
     \<and> \<not> isinstance tbl (PyObject ''ClientModel'' 0) ''Estimator''"
proof -
  let ?tbl = "(api_classes [])(''ClientModel'' \<mapsto>
      \<lparr>k_mro = ''ClientModel'' # k_mro (Model_class []), k_abstract = [],
       k_dict = rev (c_methods (ClientModel []))\<rparr>)"
  have fresh: "set (map c_name [ClientModel []]) \<inter> set (map c_name api_py) = {}"
    by (simp add: ClientModel_def api_py_def Stage_def AlgoOperator_def Transformer_def
        Model_def Estimator_def)
  have m: "isinstance ?tbl (PyObject ''ClientModel'' 0) ''Model''"
    "\<not> isinstance ?tbl (PyObject ''ClientModel'' 0) ''Estimator''"
    "instantiate ?tbl ''ClientModel'' 0 = Inr (PyObject ''ClientModel'' 0)"
    by (simp_all add: issubclass_def Model_class_def instantiate_def)
  from Model_is_Transformer_AlgoOperator_Stage [OF api_table_eq ClientModel_table fresh,
      of "PyObject ''ClientModel'' 0"] m
  show ?thesis
    using api_table_eq [of "[]"] ClientModel_table fresh by simp
qed


section \<open>AlgoOperator\<close>





section \<open>Stage: save and load at this layer\<close>

lemma after_class_Inr: "define_class tbl d = Inr tbl' \<Longrightarrow> after_class tbl d = tbl'"
  by (simp add: after_class_def)

lemma call_Stage_load:
  assumes "resolve t c ''load'' = Some (''Stage'', load_decl)"
  shows "call_method t (PyType c) ''load'' [PyEnv e, PyStr p] = Inr PyNone"
  using assms by (simp add: call_method_def bind_ok_def load_decl_def Stage_load_def)

lemma resolve_ClientModel_load:
  assumes "tbl = (api_classes wp)(''ClientModel'' \<mapsto>
      \<lparr>k_mro = ''ClientModel'' # k_mro (Model_class wp), k_abstract = [],
       k_dict = rev (c_methods (ClientModel impl))\<rparr>)"
  shows "resolve tbl ''ClientModel'' ''load'' = Some (''ClientModel'', client_load)"
  unfolding assms by (simp add: resolve_def ClientModel_def)

text \<open>
  Claim C7, as amended. \<^verbatim>\<open>Stage\<close> declares two functions, \<^verbatim>\<open>save\<close> and \<^verbatim>\<open>load\<close>, in this
  order. After the import both are found on \<^verbatim>\<open>Stage\<close> itself and both are abstract; their
  bodies do nothing and return \<^verbatim>\<open>None\<close>. \<^verbatim>\<open>save\<close> is an instance method that takes exactly
  a path, and its return annotation admits only \<^verbatim>\<open>None\<close>. \<^verbatim>\<open>load\<close> is a class method that
  takes exactly a table environment and a path, and its return annotation is the type
  variable \<^verbatim>\<open>T\<close>. The module's own \<^verbatim>\<open>load\<close> does not return an instance: called on
  \<^verbatim>\<open>Stage\<close>, or on any class \<open>c\<close> on which the lookup still finds the function of \<^verbatim>\<open>Stage\<close>,
  with an environment and a path it returns \<^verbatim>\<open>None\<close>, which \<^verbatim>\<open>T\<close> bound to \<open>c\<close> does not
  admit. An instance of the calling class comes from an override: on the subclass whose
  \<^verbatim>\<open>load\<close> returns \<^verbatim>\<open>cls()\<close>, the call on the class returns an instance of that class.
\<close>

theorem Stage_save_and_load:
  assumes "api_table wp = Inr tbl" and "implements impl wp"
    and "resolve t c ''load'' = Some (''Stage'', load_decl)"
  shows "map fst (c_methods Stage) = [''save'', ''load'']
    \<and> resolve tbl ''Stage'' ''save'' = Some (''Stage'', save_decl)
    \<and> resolve tbl ''Stage'' ''load'' = Some (''Stage'', load_decl)
    \<and> m_abstract save_decl \<and> m_abstract load_decl
    \<and> is_abstract_attr tbl ''Stage'' ''save'' \<and> is_abstract_attr tbl ''Stage'' ''load''
    \<and> m_body save_decl self args = Inr PyNone \<and> m_body load_decl cls args = Inr PyNone
    \<and> m_classmethod load_decl \<and> \<not> m_classmethod save_decl
    \<and> m_params load_decl = [(''t_env'', TStreamTableEnvironment), (''path'', TStr)]
    \<and> m_vararg load_decl = None
    \<and> bind_ok load_decl args = (length args = 2)
    \<and> m_returns load_decl = TVar ''T''
    \<and> m_params save_decl = [(''path'', TStr)]
    \<and> m_vararg save_decl = None
    \<and> bind_ok save_decl args = (length args = 1)
    \<and> conforms tbl env (m_returns save_decl) v = (v = PyNone)
    \<and> call_method tbl (PyType ''Stage'') ''load'' [PyEnv e, PyStr p] = Inr PyNone
    \<and> call_method t (PyType c) ''load'' [PyEnv e, PyStr p] = Inr PyNone
    \<and> \<not> conforms t [''T'' \<mapsto> c] (m_returns load_decl) PyNone
    \<and> (\<exists>tbl'. define_class tbl (ClientModel impl) = Inr tbl'
          \<and> resolve tbl' ''ClientModel'' ''load'' = Some (''ClientModel'', client_load)
          \<and> call_method tbl' (PyType ''ClientModel'') ''load'' [PyEnv e, PyStr p]
              = Inr (PyObject ''ClientModel'' 0)
          \<and> isinstance tbl' (PyObject ''ClientModel'' 0) ''ClientModel''
          \<and> conforms tbl' [''T'' \<mapsto> ''ClientModel''] (m_returns load_decl)
               (PyObject ''ClientModel'' 0))"
proof -
  from assms(1) have tbl: "tbl = api_classes wp"
    by (simp add: api_table_eq)
  have abs: "is_abstract_attr tbl ''Stage'' ''save''" "is_abstract_attr tbl ''Stage'' ''load''"
    unfolding tbl is_abstract_attr_def by (simp_all add: resolve_Stage decl_defs)
  have decls: "m_abstract save_decl" "m_abstract load_decl"
    "m_body save_decl self args = Inr PyNone" "m_body load_decl cls args = Inr PyNone"
    "m_classmethod load_decl" "\<not> m_classmethod save_decl"
    "m_params load_decl = [(''t_env'', TStreamTableEnvironment), (''path'', TStr)]"
    "m_vararg load_decl = None" "m_params save_decl = [(''path'', TStr)]"
    "m_vararg save_decl = None" "m_returns load_decl = TVar ''T''"
    by (simp_all add: decl_defs Stage_save_def Stage_load_def)
  have ret: "conforms tbl env (m_returns save_decl) v = (v = PyNone)"
    "\<not> conforms t [''T'' \<mapsto> c] (m_returns load_decl) PyNone"
    by (simp_all add: decl_defs)
  have here: "call_method tbl (PyType ''Stage'') ''load'' [PyEnv e, PyStr p] = Inr PyNone"
    unfolding tbl by (rule call_Stage_load) (rule resolve_Stage)
  have there: "call_method t (PyType c) ''load'' [PyEnv e, PyStr p] = Inr PyNone"
    by (rule call_Stage_load) (rule assms(3))
  define tbl' where "tbl' = (api_classes wp)(''ClientModel'' \<mapsto>
      \<lparr>k_mro = ''ClientModel'' # k_mro (Model_class wp), k_abstract = [],
       k_dict = rev (c_methods (ClientModel impl))\<rparr>)"
  have d: "define_class tbl (ClientModel impl) = Inr tbl'"
    unfolding tbl tbl'_def by (rule define_ClientModel) (rule assms(2))
  have r: "resolve tbl' ''ClientModel'' ''load'' = Some (''ClientModel'', client_load)"
    by (rule resolve_ClientModel_load) (rule tbl'_def)
  have c: "call_method tbl' (PyType ''ClientModel'') ''load'' [PyEnv e, PyStr p]
      = Inr (PyObject ''ClientModel'' 0)"
    by (simp add: call_method_def r bind_ok_def client_load_def)
  have i: "isinstance tbl' (PyObject ''ClientModel'' 0) ''ClientModel''"
    by (simp add: issubclass_def tbl'_def)
  then have a: "conforms tbl' [''T'' \<mapsto> ''ClientModel''] (m_returns load_decl)
      (PyObject ''ClientModel'' 0)"
    by (simp add: load_decl_def)
  have over: "\<exists>tbl'. define_class tbl (ClientModel impl) = Inr tbl'
          \<and> resolve tbl' ''ClientModel'' ''load'' = Some (''ClientModel'', client_load)
          \<and> call_method tbl' (PyType ''ClientModel'') ''load'' [PyEnv e, PyStr p]
              = Inr (PyObject ''ClientModel'' 0)
          \<and> isinstance tbl' (PyObject ''ClientModel'' 0) ''ClientModel''
          \<and> conforms tbl' [''T'' \<mapsto> ''ClientModel''] (m_returns load_decl)
               (PyObject ''ClientModel'' 0)"
    using d r c i a by blast
  have res: "resolve tbl ''Stage'' ''save'' = Some (''Stage'', save_decl)"
    "resolve tbl ''Stage'' ''load'' = Some (''Stage'', load_decl)"
    unfolding tbl by (rule resolve_Stage)+
  from abs decls ret here there over res show ?thesis
    by (simp only: Stage_save_load_decls bind_ok_save bind_ok_load simp_thms)
qed

lemma resolve_Estimator_load:
  "resolve (api_classes wp) ''Estimator'' ''load'' = Some (''Stage'', load_decl)"
  by (simp add: resolve_def api_classes_simps class_defs)

lemma implements_Nil: "implements [] []"
  by (simp add: implements_def abstract_names_def)

theorem Stage_save_and_load_witness:
  "api_table [] = Inr (api_classes []) \<and> implements [] []
     \<and> resolve (api_classes []) ''Estimator'' ''load'' = Some (''Stage'', load_decl)
     \<and> call_method (api_classes []) (PyType ''Estimator'') ''load'' [PyEnv 0, PyStr ''/tmp/stage'']
         = Inr PyNone
     \<and> define_class (api_classes []) (ClientModel [])
         = Inr (after_class (api_classes []) (ClientModel []))
     \<and> call_method (after_class (api_classes []) (ClientModel [])) (PyType ''ClientModel'') ''load''
          [PyEnv 0, PyStr ''/tmp/stage''] = Inr (PyObject ''ClientModel'' 0)
     \<and> bind_ok load_decl [PyEnv 0, PyStr ''/tmp/stage'']
     \<and> \<not> bind_ok save_decl []"
proof -
  note at_two = Stage_save_and_load [OF api_table_eq implements_Nil resolve_Estimator_load,
      where args = "[PyEnv 0, PyStr ''/tmp/stage'']" and e = 0 and p = "''/tmp/stage''"]
  note at_none = Stage_save_and_load [OF api_table_eq implements_Nil resolve_Estimator_load,
      where args = "[]" and e = 0 and p = "''/tmp/stage''"]
  from at_two obtain tbl' where d: "define_class (api_classes []) (ClientModel []) = Inr tbl'"
    and c: "call_method tbl' (PyType ''ClientModel'') ''load'' [PyEnv 0, PyStr ''/tmp/stage'']
      = Inr (PyObject ''ClientModel'' 0)"
    by blast
  from d have a: "after_class (api_classes []) (ClientModel []) = tbl'"
    by (rule after_class_Inr)
  from at_two have "call_method (api_classes []) (PyType ''Estimator'') ''load''
      [PyEnv 0, PyStr ''/tmp/stage''] = Inr PyNone"
    and "bind_ok load_decl [PyEnv 0, PyStr ''/tmp/stage'']"
    by simp_all
  moreover from at_none have "\<not> bind_ok save_decl []"
    by simp
  ultimately show ?thesis
    using d c a api_table_eq [of "[]"] implements_Nil resolve_Estimator_load [of "[]"] by simp
qed

text \<open>
  The claim as it was stated fails at \<^verbatim>\<open>Stage.load(t_env, '/tmp/stage')\<close>: the call returns
  \<^verbatim>\<open>None\<close>, which is not an instance of the calling class.
\<close>

theorem Stage_load_counterexample:
  "api_table [] = Inr (api_classes [])
   \<and> call_method (api_classes []) (PyType ''Stage'') ''load'' [PyEnv 0, PyStr ''/tmp/stage'']
       = Inr PyNone
   \<and> \<not> isinstance (api_classes []) PyNone ''Stage''"
  by (simp add: api_table_eq call_Stage_load resolve_Stage)

section \<open>Which subclasses of Estimator can be instantiated\<close>

text \<open>
  Claim C10, as amended. After the import none of \<^verbatim>\<open>Stage\<close>, \<^verbatim>\<open>AlgoOperator\<close>,
  \<^verbatim>\<open>Transformer\<close>, \<^verbatim>\<open>Model\<close> and \<^verbatim>\<open>Estimator\<close> can be instantiated: the call raises
  \<^verbatim>\<open>TypeError\<close>. Each keeps \<^verbatim>\<open>save\<close> and \<^verbatim>\<open>load\<close> abstract, \<^verbatim>\<open>AlgoOperator\<close>, \<^verbatim>\<open>Transformer\<close>
  and \<^verbatim>\<open>Model\<close> keep \<^verbatim>\<open>transform\<close> abstract as well, and the only other abstract names are
  those that \<^verbatim>\<open>WithParams\<close> leaves. \<^verbatim>\<open>Estimator.fit\<close> is not abstract: a subclass of
  \<^verbatim>\<open>Estimator\<close> that defines \<^verbatim>\<open>save\<close> and \<^verbatim>\<open>load\<close>, implements what \<^verbatim>\<open>WithParams\<close> leaves
  abstract and does not define \<^verbatim>\<open>fit\<close> has no abstract name left and can be instantiated,
  and \<^verbatim>\<open>fit\<close> on it is still the function of \<^verbatim>\<open>Estimator\<close>. The subclass whose body defines
  \<^verbatim>\<open>save\<close> and \<^verbatim>\<open>load\<close> only keeps the abstract names of \<^verbatim>\<open>WithParams\<close> other than \<^verbatim>\<open>save\<close>,
  \<^verbatim>\<open>load\<close> and \<^verbatim>\<open>fit\<close>, and can be instantiated exactly when there is none.
\<close>

theorem abstract_classes:
  assumes "api_table wp = Inr tbl" and "implements impl wp" and "''fit'' \<notin> fst ` set impl"
  shows "instantiate tbl ''Stage'' i = Inl (PyExc TypeError ''Cannot instantiate abstract class'')
    \<and> instantiate tbl ''AlgoOperator'' i = Inl (PyExc TypeError ''Cannot instantiate abstract class'')
    \<and> instantiate tbl ''Transformer'' i = Inl (PyExc TypeError ''Cannot instantiate abstract class'')
    \<and> instantiate tbl ''Model'' i = Inl (PyExc TypeError ''Cannot instantiate abstract class'')
    \<and> instantiate tbl ''Estimator'' i = Inl (PyExc TypeError ''Cannot instantiate abstract class'')
    \<and> abstractmethods tbl ''Stage'' = ''save'' # ''load'' # abstract_names wp
    \<and> abstractmethods tbl ''AlgoOperator'' = ''transform'' # ''save'' # ''load'' # abstract_names wp
    \<and> abstractmethods tbl ''Transformer'' = ''transform'' # ''save'' # ''load'' # abstract_names wp
    \<and> abstractmethods tbl ''Model'' = ''transform'' # ''save'' # ''load'' #
         filter (\<lambda>n. n \<noteq> ''set_model_data'' \<and> n \<noteq> ''get_model_data'') (abstract_names wp)
    \<and> abstractmethods tbl ''Estimator''
         = ''save'' # ''load'' # filter (\<lambda>n. n \<noteq> ''fit'') (abstract_names wp)
    \<and> \<not> m_abstract fit_decl
    \<and> c_methods (ClientEstimator impl) = impl @ [(''save'', client_save), (''load'', client_load)]
    \<and> (\<exists>tbl'. define_class tbl (ClientEstimator impl) = Inr tbl'
          \<and> resolve tbl' ''ClientEstimator'' ''fit'' = Some (''Estimator'', fit_decl)
          \<and> abstractmethods tbl' ''ClientEstimator'' = []
          \<and> instantiate tbl' ''ClientEstimator'' i = Inr (PyObject ''ClientEstimator'' i))
    \<and> (\<exists>tbl'. define_class tbl (ClientEstimator []) = Inr tbl'
          \<and> resolve tbl' ''ClientEstimator'' ''fit'' = Some (''Estimator'', fit_decl)
          \<and> abstractmethods tbl' ''ClientEstimator''
              = filter (\<lambda>n. n \<noteq> ''fit'' \<and> n \<noteq> ''save'' \<and> n \<noteq> ''load'') (abstract_names wp)
          \<and> (instantiate tbl' ''ClientEstimator'' i = Inr (PyObject ''ClientEstimator'' i))
              = (set (abstract_names wp) \<subseteq> {''save'', ''load'', ''fit''}))"
proof -
  from assms(1) have tbl: "tbl = api_classes wp"
    by (simp add: api_table_eq)
  let ?t = "(api_classes wp)(''ClientEstimator'' \<mapsto>
      \<lparr>k_mro = ''ClientEstimator'' # k_mro (Estimator_class wp),
       k_abstract = filter (\<lambda>n. n \<noteq> ''fit'' \<and> n \<noteq> ''save'' \<and> n \<noteq> ''load'') (abstract_names wp),
       k_dict = [(''load'', client_load), (''save'', client_save)]\<rparr>)"
  have r: "resolve ?t ''ClientEstimator'' ''fit'' = Some (''Estimator'', fit_decl)"
    by (rule resolve_ClientEstimator_fit [where impl = "[]"]) simp_all
  have nf: "abstractmethods ?t ''ClientEstimator''
      = filter (\<lambda>n. n \<noteq> ''fit'' \<and> n \<noteq> ''save'' \<and> n \<noteq> ''load'') (abstract_names wp)"
    by (simp add: abstractmethods_def)
  have i: "(instantiate ?t ''ClientEstimator'' i = Inr (PyObject ''ClientEstimator'' i))
      = (set (abstract_names wp) \<subseteq> {''save'', ''load'', ''fit''})"
    by (auto simp: instantiate_def filter_empty_conv)
  have only: "\<exists>tbl'. define_class tbl (ClientEstimator []) = Inr tbl'
          \<and> resolve tbl' ''ClientEstimator'' ''fit'' = Some (''Estimator'', fit_decl)
          \<and> abstractmethods tbl' ''ClientEstimator''
              = filter (\<lambda>n. n \<noteq> ''fit'' \<and> n \<noteq> ''save'' \<and> n \<noteq> ''load'') (abstract_names wp)
          \<and> (instantiate tbl' ''ClientEstimator'' i = Inr (PyObject ''ClientEstimator'' i))
              = (set (abstract_names wp) \<subseteq> {''save'', ''load'', ''fit''})"
    unfolding tbl define_ClientEstimator_only using r nf i by blast
  define u where "u = (api_classes wp)(''ClientEstimator'' \<mapsto>
      \<lparr>k_mro = ''ClientEstimator'' # k_mro (Estimator_class wp), k_abstract = [],
       k_dict = [(''load'', client_load), (''save'', client_save)] @ rev impl\<rparr>)"
  have ud: "define_class tbl (ClientEstimator impl) = Inr u"
    unfolding tbl u_def by (rule define_ClientEstimator) (rule assms(2))
  have ur: "resolve u ''ClientEstimator'' ''fit'' = Some (''Estimator'', fit_decl)"
    by (rule resolve_ClientEstimator_fit [OF u_def assms(3)])
  have ua: "abstractmethods u ''ClientEstimator'' = []"
    by (simp add: abstractmethods_def u_def)
  have ui: "instantiate u ''ClientEstimator'' i = Inr (PyObject ''ClientEstimator'' i)"
    by (simp add: instantiate_def u_def)
  have full: "\<exists>tbl'. define_class tbl (ClientEstimator impl) = Inr tbl'
          \<and> resolve tbl' ''ClientEstimator'' ''fit'' = Some (''Estimator'', fit_decl)
          \<and> abstractmethods tbl' ''ClientEstimator'' = []
          \<and> instantiate tbl' ''ClientEstimator'' i = Inr (PyObject ''ClientEstimator'' i)"
    using ud ur ua ui by blast
  have decl: "\<not> m_abstract fit_decl"
    "c_methods (ClientEstimator impl) = impl @ [(''save'', client_save), (''load'', client_load)]"
    by (simp_all add: fit_decl_def ClientEstimator_def)
  from only full decl show ?thesis
    unfolding tbl by (simp only: instantiate_abstract abstractmethods_api simp_thms)
qed

lemma implements_get_param_map: "implements impl_get_param_map wp_get_param_map"
  by (simp add: implements_def abstract_names_def impl_get_param_map_def wp_get_param_map_def)

lemma abstract_names_get_param_map: "abstract_names wp_get_param_map = [''get_param_map'']"
  by (simp add: abstract_names_def wp_get_param_map_def)

theorem abstract_classes_witness:
  "api_table wp_get_param_map = Inr (api_classes wp_get_param_map)
     \<and> implements impl_get_param_map wp_get_param_map
     \<and> ''fit'' \<notin> fst ` set impl_get_param_map
     \<and> instantiate (api_classes wp_get_param_map) ''Estimator'' 0
         = Inl (PyExc TypeError ''Cannot instantiate abstract class'')
     \<and> abstractmethods (api_classes wp_get_param_map) ''Model''
         = [''transform'', ''save'', ''load'', ''get_param_map'']
     \<and> define_class (api_classes wp_get_param_map) (ClientEstimator impl_get_param_map)
         = Inr (after_class (api_classes wp_get_param_map) (ClientEstimator impl_get_param_map))
     \<and> instantiate (after_class (api_classes wp_get_param_map) (ClientEstimator impl_get_param_map))
           ''ClientEstimator'' 0 = Inr (PyObject ''ClientEstimator'' 0)"
proof -
  have f: "''fit'' \<notin> fst ` set impl_get_param_map"
    by (simp add: impl_get_param_map_def)
  note inst = abstract_classes [OF api_table_eq implements_get_param_map f, where i = 0]
  from inst obtain tbl' where
    d: "define_class (api_classes wp_get_param_map) (ClientEstimator impl_get_param_map) = Inr tbl'"
    and n: "instantiate tbl' ''ClientEstimator'' 0 = Inr (PyObject ''ClientEstimator'' 0)"
    by blast
  from d have a: "after_class (api_classes wp_get_param_map) (ClientEstimator impl_get_param_map) = tbl'"
    by (rule after_class_Inr)
  from inst have "instantiate (api_classes wp_get_param_map) ''Estimator'' 0
         = Inl (PyExc TypeError ''Cannot instantiate abstract class'')"
    and "abstractmethods (api_classes wp_get_param_map) ''Model''
         = [''transform'', ''save'', ''load'', ''get_param_map'']"
    by (simp_all add: abstract_names_get_param_map)
  with d n a f implements_get_param_map api_table_eq [of wp_get_param_map] show ?thesis
    by simp
qed

text \<open>
  The claim as it was stated fails when \<^verbatim>\<open>WithParams\<close> leaves \<^verbatim>\<open>get_param_map\<close> abstract:
  the subclass of \<^verbatim>\<open>Estimator\<close> that defines \<^verbatim>\<open>save\<close> and \<^verbatim>\<open>load\<close> only is defined, keeps
  \<^verbatim>\<open>get_param_map\<close> abstract, and calling it raises \<^verbatim>\<open>TypeError\<close>.
\<close>

theorem abstract_classes_counterexample:
  "api_table wp_get_param_map = Inr (api_classes wp_get_param_map)
     \<and> map fst (c_methods (ClientEstimator [])) = [''save'', ''load'']
     \<and> define_class (api_classes wp_get_param_map) (ClientEstimator [])
         = Inr (after_class (api_classes wp_get_param_map) (ClientEstimator []))
     \<and> abstractmethods (after_class (api_classes wp_get_param_map) (ClientEstimator []))
           ''ClientEstimator'' = [''get_param_map'']
     \<and> instantiate (after_class (api_classes wp_get_param_map) (ClientEstimator []))
           ''ClientEstimator'' 0 = Inl (PyExc TypeError ''Cannot instantiate abstract class'')"
proof -
  let ?t = "(api_classes wp_get_param_map)(''ClientEstimator'' \<mapsto>
      \<lparr>k_mro = ''ClientEstimator'' # k_mro (Estimator_class wp_get_param_map),
       k_abstract = filter (\<lambda>n. n \<noteq> ''fit'' \<and> n \<noteq> ''save'' \<and> n \<noteq> ''load'')
         (abstract_names wp_get_param_map),
       k_dict = [(''load'', client_load), (''save'', client_save)]\<rparr>)"
  have a: "after_class (api_classes wp_get_param_map) (ClientEstimator []) = ?t"
    by (rule after_class_Inr) (rule define_ClientEstimator_only)
  have n: "map fst (c_methods (ClientEstimator [])) = [''save'', ''load'']"
    by (simp add: ClientEstimator_def)
  show ?thesis
    unfolding a n
    by (simp add: api_table_eq define_ClientEstimator_only abstract_names_get_param_map
        abstractmethods_def instantiate_def)
qed

section \<open>The interface of transform\<close>







section \<open>Save and load\<close>

text \<open>
  Claim C5, against the persistence as the specification describes it. When a stage \<open>s\<close>
  has been saved to a path, constructing a stage of the same class with the no-argument
  constructor and calling \<^verbatim>\<open>load\<close> for that path on its class succeeds and returns a new
  stage of that class with the configuration of \<open>s\<close>.
\<close>

theorem save_load_round_trip:
  assumes "spec_save s path st = Inr st'"
  shows "\<exists>s'. spec_load (of_class (spec_construct defaults (of_class s) i)) t_env path st' j = Inr s'
    \<and> of_class s' = of_class s \<and> config s' = config s \<and> ident s' = j"
  using assms
  by (auto simp: spec_save_def spec_load_def spec_construct_def split: if_splits)

text \<open>
  A later save to another path does not disturb the data; an unwritable path and a path
  without data fail as described.
\<close>

lemma save_load_frame:
  assumes "spec_save s path st = Inr st1" and "spec_save s2 path2 st1 = Inr st2" and "path2 \<noteq> path"
  shows "\<exists>s'. spec_load (of_class s) t_env path st2 j = Inr s' \<and> config s' = config s"
  using assms
  by (auto simp: spec_save_def spec_load_def split: if_splits)

lemma save_unwritable: "\<not> writable st path \<Longrightarrow> spec_save s path st = Inl IOError"
  by (simp add: spec_save_def)

lemma load_missing: "files st path = None \<Longrightarrow> spec_load cls t_env path st i = Inl NotFoundError"
  by (simp add: spec_load_def)

theorem save_load_round_trip_witness:
  "\<exists>st' s'. spec_save \<lparr>of_class = ''ClientModel'', ident = 1, config = [(''k'', PyStr ''3'')]\<rparr>
        ''/tmp/stage'' \<lparr>files = Map.empty, writable = (\<lambda>p. True)\<rparr> = Inr st'
     \<and> spec_load ''ClientModel'' 0 ''/tmp/stage'' st' 2 = Inr s'
     \<and> config s' = [(''k'', PyStr ''3'')] \<and> of_class s' = ''ClientModel''"
proof -
  let ?s = "\<lparr>of_class = ''ClientModel'', ident = 1, config = [(''k'', PyStr ''3'')]\<rparr>"
  let ?st = "\<lparr>files = Map.empty, writable = (\<lambda>p. True)\<rparr>"
  have sv: "spec_save ?s ''/tmp/stage'' ?st
      = Inr (?st\<lparr>files := (files ?st)(''/tmp/stage'' \<mapsto> StageData (config ?s))\<rparr>)"
    by (simp add: spec_save_def)
  from save_load_round_trip [OF sv, of "\<lambda>c. []" 5 0 2] sv show ?thesis
    by (auto simp: spec_construct_def)
qed


end
